theory Spec2Isabelle
  imports Main "HOL-Library.Word" "HOL-Library.Product_Lexorder" "HOL-Library.Multiset"
begin

unbundle bit_operations_syntax

section \<open>Data model\<close>

text \<open>
  Go types as far as the decoder inspects them through reflection. \<open>TInt k\<close> and
  \<open>TUint k\<close> are the signed and unsigned integer kinds (\<open>int\<close> and \<open>uint\<close> have 64 bits),
  \<open>TBigInt\<close>, \<open>TOid\<close> and \<open>TNull\<close> the three distinguished types, \<open>TStruct\<close> a
  struct given by the (struct tag, type) pairs of its fields in declaration order,
  \<open>TInterface\<close> the empty interface and \<open>TOther\<close> any kind the decoder has no case
  for (pointers, maps, floats, ...). Struct fields are taken to be exported.
\<close>

type_synonym byte = "8 word"

datatype intKind = KInt | KInt8 | KInt16 | KInt32 | KInt64

datatype uintKind = KUint | KUint8 | KUint16 | KUint32 | KUint64

fun intBits :: "intKind \<Rightarrow> nat" where
  "intBits KInt = 64"
| "intBits KInt8 = 8"
| "intBits KInt16 = 16"
| "intBits KInt32 = 32"
| "intBits KInt64 = 64"

fun uintBits :: "uintKind \<Rightarrow> nat" where
  "uintBits KUint = 64"
| "uintBits KUint8 = 8"
| "uintBits KUint16 = 16"
| "uintBits KUint32 = 32"
| "uintBits KUint64 = 64"

datatype gotype =
    TBool
  | TString
  | TInt intKind
  | TUint uintKind
  | TBigInt
  | TOid
  | TNull
  | TStruct "(string \<times> gotype) list"
  | TArray nat gotype
  | TSlice gotype
  | TInterface
  | TOther

text \<open>
  Errors. \<open>SyntaxError\<close> and \<open>ParseError\<close> are the two error types of asn1.go; both
  carry \<open>fmt.Sprintf(msg, args...)\<close>, kept here as the format string and the list of
  its arguments. \<open>ErrorString\<close> is the plain error built by \<open>fmt.Errorf\<close>,
  \<open>Panic\<close> a run-time panic of the Go program, and \<open>OutOfFuel\<close> is not a Go
  error: it marks a run of the model that was given too little fuel.
\<close>

datatype arg = AInt int | AUint nat | AString string | AType gotype

datatype error =
    SyntaxError string "arg list"
  | ParseError string "arg list"
  | ErrorString string "arg list"
  | Panic string
  | OutOfFuel

fun isSyntaxError :: "error \<Rightarrow> bool" where
  "isSyntaxError (SyntaxError m as) = True"
| "isSyntaxError e = False"

fun isParseError :: "error \<Rightarrow> bool" where
  "isParseError (ParseError m as) = True"
| "isParseError e = False"

text \<open>options.go: \<open>type fieldOptions struct\<close>. A nil pointer is \<open>None\<close>.\<close>

record fieldOptions =
  universal :: bool
  application :: bool
  explicit :: bool
  indefinite :: bool
  optional :: bool
  set_opt :: bool
  tag :: "int option"
  defaultValue :: "int option"
  choice :: "string option"

definition zeroOptions :: fieldOptions where
  "zeroOptions = \<lparr> universal = False, application = False, explicit = False,
     indefinite = False, optional = False, set_opt = False, tag = None,
     defaultValue = None, choice = None \<rparr>"

text \<open>
  The element decoders. In the source \<open>decoderFunction\<close> is a function value
  \<open>func(data []byte, value reflect.Value) error\<close>; here each function value the
  package builds has a name, and \<open>runDecoder\<close> below runs it. \<open>Primitive\<close> names
  the decoders of the universal types (\<open>ctx.decodeBool\<close> and so on), \<open>ExplicitDecoder opts\<close> is the
  closure \<open>getExpectedElement\<close> installs for \<open>explicit\<close> (it captures \<open>opts\<close>),
  and \<open>ChoiceDecoder typ d\<close> the closure it installs for \<open>choice\<close> (it captures the
  registry entry, of which it uses \<open>entry.typ\<close> and \<open>entry.decoder\<close>).
\<close>

datatype primitiveDecoder =
    DecodeBigInt | DecodeOid | DecodeNull | DecodeBool
  | DecodeString | DecodeInt | DecodeUint | DecodeOctetString

datatype decoderFunction =
    Primitive primitiveDecoder
  | DecodeStruct
  | DecodeStructAsSet
  | DecodeArray
  | DecodeSlice
  | ExplicitDecoder fieldOptions
  | ChoiceDecoder gotype "decoderFunction option"

text \<open>
  decode.go: \<open>expectedElement\<close> and \<open>expectedFieldElement\<close>, which embeds it. The
  fields \<open>class\<close> and \<open>tag\<close> are \<open>eclass\<close> and \<open>etag\<close> here; Go's \<open>uint\<close> is a
  natural number below \<open>2 ^ 64\<close>. The \<open>reflect.Value\<close> of a struct field is its index
  in the struct and its type. context.go: \<open>choiceEntry\<close> and \<open>Context\<close>; the
  logger only receives debug output and is left out.
\<close>

record expectedElement =
  eclass :: nat
  etag :: nat
  decoder :: "decoderFunction option"

record expectedFieldElement = expectedElement +
  fvalue :: "nat \<times> gotype"
  fopts :: fieldOptions

record choiceEntry = expectedElement +
  entry_typ :: gotype
  entry_opts :: fieldOptions

record derFlags =
  encoding :: bool
  decoding :: bool

record Context =
  choices :: "string \<Rightarrow> choiceEntry list"
  der :: derFlags

text \<open>
  Modelled from the spec: the type \<open>RawValue\<close> is declared in a file that is not
  part of the sources at hand. The raw TLV is (class, tag, constructed, indefinite,
  content). The functions at hand read the fields \<open>Class\<close>, \<open>Tag\<close>,
  \<open>Indefinite\<close> and \<open>Content\<close>.
\<close>

record RawValue =
  Class :: nat
  Tag :: nat
  Constructed :: bool
  Indefinite :: bool
  Content :: "byte list"

text \<open>The zero value \<open>RawValue{}\<close>.\<close>

definition zeroRawValue :: RawValue where
  "zeroRawValue = \<lparr> Class = 0, Tag = 0, Constructed = False, Indefinite = False, Content = [] \<rparr>"

text \<open>
  Modelled from the spec: the class constants are declared in a file that is not part
  of the sources at hand. The classes are Universal = 0, Application = 1,
  ContextSpecific = 2, Private = 3.
\<close>

definition ClassUniversal :: nat where "ClassUniversal = 0"
definition ClassApplication :: nat where "ClassApplication = 1"
definition ClassContextSpecific :: nat where "ClassContextSpecific = 2"
definition ClassPrivate :: nat where "ClassPrivate = 3"

text \<open>
  Modelled from the spec: the tag constants are declared in a file that is not part of
  the sources at hand. The universal tags are BOOLEAN 1, INTEGER 2, OCTET STRING 4,
  NULL 5, OID 6, SEQUENCE 16, SET 17.
\<close>

definition TagBoolean :: nat where "TagBoolean = 1"
definition TagInteger :: nat where "TagInteger = 2"
definition TagOctetString :: nat where "TagOctetString = 4"
definition TagNull :: nat where "TagNull = 5"
definition TagOid :: nat where "TagOid = 6"
definition TagSequence :: nat where "TagSequence = 16"
definition TagSet :: nat where "TagSet = 17"

text \<open>
  Decoded values: booleans, integers of every kind (a \<open>*big.Int\<close> too), byte
  sequences (a string, a byte slice or a byte array), object identifiers, Null,
  structs (the values of the fields in order), arrays and slices, and the empty
  interface holding a value of a dynamic type, or nil. A value is taken to conform to
  its type, as the values of a Go program do: a struct value has one value per field.
\<close>

datatype val =
    VBool bool
  | VInt int
  | VBytes "byte list"
  | VOid "nat list"
  | VNull
  | VStruct "val list"
  | VList "val list"
  | VInterface "(gotype \<times> val) option"
  | VOther

fun zeroValue :: "gotype \<Rightarrow> val" where
  "zeroValue TBool = VBool False"
| "zeroValue TString = VBytes []"
| "zeroValue (TInt k) = VInt 0"
| "zeroValue (TUint k) = VInt 0"
| "zeroValue TBigInt = VInt 0"
| "zeroValue TOid = VOid []"
| "zeroValue TNull = VNull"
| "zeroValue (TStruct fs) = VStruct (map (\<lambda>f. zeroValue (snd f)) fs)"
| "zeroValue (TArray n t) = (if t = TUint KUint8 then VBytes (replicate n 0) else VList (replicate n (zeroValue t)))"
| "zeroValue (TSlice t) = (if t = TUint KUint8 then VBytes [] else VList [])"
| "zeroValue TInterface = VInterface None"
| "zeroValue TOther = VOther"

section \<open>Option strings (options.go)\<close>

text \<open>
  The three library functions the parser calls. \<open>Split\<close> is \<open>strings.Split\<close> for a
  one-character separator: the pieces between the separators, one more than there are
  separators. \<open>Atoi\<close> is \<open>strconv.Atoi\<close> for a 64-bit \<open>int\<close>: an optional sign, at
  least one decimal digit, nothing else, and the value in range.

  \<open>TrimSpace\<close> is \<open>strings.TrimSpace\<close>: it removes the leading and then the trailing
  white space, as \<open>unicode.IsSpace\<close> defines it. A Go string is a sequence of bytes
  read as UTF-8, and the white space runes are U+0009 to U+000D, U+0020, U+0085,
  U+00A0, U+1680, U+2000 to U+200A, U+2028, U+2029, U+202F, U+205F and U+3000;
  \<open>spaceRunes\<close> lists their UTF-8 encodings. Bytes that are not the encoding of a rune
  are read as U+FFFD, which is not white space, so the string starts (ends) with a
  white space rune exactly when it starts (ends) with one of these encodings.
\<close>

fun Split :: "string \<Rightarrow> char \<Rightarrow> string list" where
  "Split [] c = [[]]"
| "Split (x # xs) c =
     (if x = c then [] # Split xs c
      else (case Split xs c of [] \<Rightarrow> [[x]] | w # ws \<Rightarrow> (x # w) # ws))"

definition spaceRunes :: "string list" where
  "spaceRunes =
     [[CHR 0x09], [CHR 0x0A], [CHR 0x0B], [CHR 0x0C], [CHR 0x0D], [CHR 0x20],
      [CHR 0xC2, CHR 0x85], [CHR 0xC2, CHR 0xA0],
      [CHR 0xE1, CHR 0x9A, CHR 0x80],
      [CHR 0xE2, CHR 0x80, CHR 0x80], [CHR 0xE2, CHR 0x80, CHR 0x81],
      [CHR 0xE2, CHR 0x80, CHR 0x82], [CHR 0xE2, CHR 0x80, CHR 0x83],
      [CHR 0xE2, CHR 0x80, CHR 0x84], [CHR 0xE2, CHR 0x80, CHR 0x85],
      [CHR 0xE2, CHR 0x80, CHR 0x86], [CHR 0xE2, CHR 0x80, CHR 0x87],
      [CHR 0xE2, CHR 0x80, CHR 0x88], [CHR 0xE2, CHR 0x80, CHR 0x89],
      [CHR 0xE2, CHR 0x80, CHR 0x8A],
      [CHR 0xE2, CHR 0x80, CHR 0xA8], [CHR 0xE2, CHR 0x80, CHR 0xA9],
      [CHR 0xE2, CHR 0x80, CHR 0xAF],
      [CHR 0xE2, CHR 0x81, CHR 0x9F],
      [CHR 0xE3, CHR 0x80, CHR 0x80]]"

text \<open>
  \<open>trimLeft rs s\<close> removes from the front of \<open>s\<close> every leading byte sequence of
  \<open>rs\<close>, as \<open>strings.TrimLeftFunc\<close> removes the leading white space runes.
\<close>

function trimLeft :: "string list \<Rightarrow> string \<Rightarrow> string" where
  "trimLeft rs s =
     (case find (\<lambda>r. r \<noteq> [] \<and> take (length r) s = r) rs of
        None \<Rightarrow> s
      | Some r \<Rightarrow> trimLeft rs (drop (length r) s))"
  by pat_completeness auto

termination
proof (relation "measure (\<lambda>(rs, s). length s)")
  show "wf (measure (\<lambda>(rs, s). length s))"
    by simp
next
  fix rs :: "string list" and s r :: string
  assume "find (\<lambda>r. r \<noteq> [] \<and> take (length r) s = r) rs = Some r"
  then have "r \<noteq> []" and "take (length r) s = r"
    by (auto simp: find_Some_iff)
  from \<open>r \<noteq> []\<close> have "0 < length r"
    by simp
  moreover have "length r \<le> length s"
  proof (rule ccontr)
    assume long: "\<not> length r \<le> length s"
    then have "take (length r) s = s"
      by simp
    with \<open>take (length r) s = r\<close> have "s = r"
      by simp
    with long show False
      by simp
  qed
  ultimately have "length s - length r < length s"
    by arith
  then show "((rs, drop (length r) s), (rs, s)) \<in> measure (\<lambda>(rs, s). length s)"
    by simp
qed

definition TrimSpace :: "string \<Rightarrow> string" where
  "TrimSpace s = rev (trimLeft (map rev spaceRunes) (rev (trimLeft spaceRunes s)))"

definition isDigit :: "char \<Rightarrow> bool" where
  "isDigit c = (48 \<le> (of_char c :: int) \<and> (of_char c :: int) \<le> 57)"

definition decimal :: "string \<Rightarrow> int" where
  "decimal ds = foldl (\<lambda>n c. n * 10 + ((of_char c :: int) - 48)) 0 ds"

definition Atoi :: "string \<Rightarrow> int option" where
  "Atoi s =
     (case s of
        [] \<Rightarrow> None
      | c # cs \<Rightarrow>
          (let ds = (if c = CHR ''-'' \<or> c = CHR ''+'' then cs else s) in
           if ds = [] \<or> \<not> list_all isDigit ds then None
           else if c = CHR ''-''
             then (if decimal ds \<le> 2 ^ 63 then Some (- decimal ds) else None)
             else (if decimal ds < 2 ^ 63 then Some (decimal ds) else None)))"

text \<open>\<open>parseBoolOption\<close> just checks that no argument was given.\<close>

definition parseBoolOption :: "string list \<Rightarrow> error + bool" where
  "parseBoolOption args =
     (if length args > 1
      then Inl (SyntaxError ''option '%s' does not have arguments.'' [AString (args ! 0)])
      else Inr True)"

definition parseIntOption :: "string list \<Rightarrow> error + int option" where
  "parseIntOption args =
     (if length args \<noteq> 2
      then Inl (SyntaxError ''option '%s' does not have arguments.'' [])
      else (case Atoi (args ! 1) of
              None \<Rightarrow> Inl (SyntaxError ''invalid value '%s' for option '%s'.''
                              [AString (args ! 1), AString (args ! 0)])
            | Some num \<Rightarrow> Inr (Some num)))"

definition parseStringOption :: "string list \<Rightarrow> error + string option" where
  "parseStringOption args =
     (if length args \<noteq> 2
      then Inl (SyntaxError ''option '%s' does not have arguments.'' [])
      else Inr (Some (args ! 1)))"

text \<open>
  \<open>parseOption\<close> parses a single option into the record. It switches on
  \<open>args[0]\<close>, which panics on an empty slice; \<open>args\<close> comes from \<open>Split\<close> and
  is never empty.
\<close>

definition parseOption :: "fieldOptions \<Rightarrow> string list \<Rightarrow> error + fieldOptions" where
  "parseOption opts args =
     (case args of
        [] \<Rightarrow> Inl (Panic ''index out of range'')
      | a # rest \<Rightarrow>
      if a = '''' then Inr opts
      else if a = ''universal'' then
        (case parseBoolOption args of Inl e \<Rightarrow> Inl e | Inr b \<Rightarrow> Inr (opts\<lparr>universal := b\<rparr>))
      else if a = ''application'' then
        (case parseBoolOption args of Inl e \<Rightarrow> Inl e | Inr b \<Rightarrow> Inr (opts\<lparr>application := b\<rparr>))
      else if a = ''explicit'' then
        (case parseBoolOption args of Inl e \<Rightarrow> Inl e | Inr b \<Rightarrow> Inr (opts\<lparr>explicit := b\<rparr>))
      else if a = ''indefinite'' then
        (case parseBoolOption args of Inl e \<Rightarrow> Inl e | Inr b \<Rightarrow> Inr (opts\<lparr>indefinite := b\<rparr>))
      else if a = ''optional'' then
        (case parseBoolOption args of Inl e \<Rightarrow> Inl e | Inr b \<Rightarrow> Inr (opts\<lparr>optional := b\<rparr>))
      else if a = ''set'' then
        (case parseBoolOption args of Inl e \<Rightarrow> Inl e | Inr b \<Rightarrow> Inr (opts\<lparr>set_opt := b\<rparr>))
      else if a = ''tag'' then
        (case parseIntOption args of Inl e \<Rightarrow> Inl e | Inr t \<Rightarrow> Inr (opts\<lparr>tag := t\<rparr>))
      else if a = ''default'' then
        (case parseIntOption args of Inl e \<Rightarrow> Inl e | Inr d \<Rightarrow> Inr (opts\<lparr>defaultValue := d\<rparr>))
      else if a = ''choice'' then
        (case parseStringOption args of Inl e \<Rightarrow> Inl e | Inr c \<Rightarrow> Inr (opts\<lparr>choice := c\<rparr>))
      else Inl (SyntaxError ''Invalid option: %s'' [AString a]))"

text \<open>\<open>validate\<close> returns an error if any option is invalid.\<close>

definition validate :: "fieldOptions \<Rightarrow> error option" where
  "validate opts =
     (if universal opts \<and> tag opts = None then
        Some (SyntaxError '''tag' must be specified when '%s' is used'' [AString ''universal''])
      else if application opts \<and> tag opts = None then
        Some (SyntaxError '''tag' must be specified when '%s' is used'' [AString ''application''])
      else if tag opts \<noteq> None \<and> the (tag opts) < 0 then
        Some (SyntaxError '''tag' cannot be negative: %d'' [AInt (the (tag opts))])
      else if choice opts \<noteq> None \<and> the (choice opts) = '''' then
        Some (SyntaxError '''choice' cannot be empty'' [])
      else None)"

text \<open>The loop of \<open>parseOptions\<close> over the tokens, stopping at the first error.\<close>

fun parseTokens :: "fieldOptions \<Rightarrow> string list \<Rightarrow> error + fieldOptions" where
  "parseTokens opts [] = Inr opts"
| "parseTokens opts (token # tokens) =
     (case parseOption opts (Split (TrimSpace token) CHR '':'') of
        Inl e \<Rightarrow> Inl e
      | Inr opts' \<Rightarrow> parseTokens opts' tokens)"

definition parseOptions :: "string \<Rightarrow> error + fieldOptions" where
  "parseOptions s =
     (case parseTokens zeroOptions (Split s CHR '','') of
        Inl e \<Rightarrow> Inl e
      | Inr opts \<Rightarrow> (case validate opts of Some e \<Rightarrow> Inl e | None \<Rightarrow> Inr opts))"

section \<open>Choice registry and context (context.go)\<close>

text \<open>
  \<open>NewContext\<close> creates and initializes a new context: an empty choice map, and
  \<open>SetDer(true, false)\<close>. A key that is not in the Go map gives the nil slice,
  which is the empty list here.
\<close>

definition SetDer :: "Context \<Rightarrow> bool \<Rightarrow> bool \<Rightarrow> Context" where
  "SetDer this enc dec = this\<lparr>der := \<lparr> encoding = enc, decoding = dec \<rparr>\<rparr>"

definition NewContext :: Context where
  "NewContext =
     SetDer \<lparr> choices = (\<lambda>name. []), der = \<lparr> encoding = False, decoding = False \<rparr> \<rparr>
       True False"

text \<open>\<open>getChoices\<close> returns the list of choices for a given name.\<close>

definition getChoices :: "Context \<Rightarrow> string \<Rightarrow> error + choiceEntry list" where
  \<open>getChoices ctx name =
     (if choices ctx name = [] then Inl (SyntaxError ''Invalid choice "%s"'' [AString name])
      else Inr (choices ctx name))\<close>

text \<open>\<open>getChoiceByTag\<close> returns the choice associated to a given tag.\<close>

definition getChoiceByTag :: "Context \<Rightarrow> string \<Rightarrow> nat \<Rightarrow> nat \<Rightarrow> error + choiceEntry" where
  \<open>getChoiceByTag ctx name cls tg =
     (case getChoices ctx name of
        Inl e \<Rightarrow> Inl e
      | Inr entries \<Rightarrow>
          (case find (\<lambda>current. eclass current = cls \<and> etag current = tg) entries of
             Some entry \<Rightarrow> Inr entry
           | None \<Rightarrow> Inl (SyntaxError ''Invalid tag [%d,%d] for choice "%s"''
                           [AUint cls, AUint tg, AString name])))\<close>

text \<open>
  \<open>addChoiceEntry\<close> adds a single choice to the list associated to a given name.
  Its error is built by \<open>fmt.Errorf\<close>.
\<close>

definition addChoiceEntry :: "Context \<Rightarrow> string \<Rightarrow> choiceEntry \<Rightarrow> error + Context" where
  "addChoiceEntry this name entry =
     (if \<exists>current \<in> set (choices this name).
           eclass current = eclass entry \<and> etag current = etag entry
      then Inl (ErrorString ''Choice already registered: %s{%d, %d}''
                  [AString name, AUint (eclass entry), AUint (etag entry)])
      else Inr (this\<lparr>choices := (choices this)(name := choices this name @ [entry])\<rparr>))"

section \<open>Schema resolver (decode.go)\<close>

text \<open>
  \<open>getUniversalTag\<close> maps a type to an ASN.1 universal type. The special types
  are looked at first, then the kind of the type; a type with no case keeps the nil
  decoder and tag 0.
\<close>

fun universalDecoder :: "gotype \<Rightarrow> fieldOptions \<Rightarrow> nat \<times> decoderFunction option" where
  "universalDecoder TBigInt opts = (TagInteger, Some (Primitive DecodeBigInt))"
| "universalDecoder TOid opts = (TagOid, Some (Primitive DecodeOid))"
| "universalDecoder TNull opts = (TagNull, Some (Primitive DecodeNull))"
| "universalDecoder TBool opts = (TagBoolean, Some (Primitive DecodeBool))"
| "universalDecoder TString opts = (TagOctetString, Some (Primitive DecodeString))"
| "universalDecoder (TInt k) opts = (TagInteger, Some (Primitive DecodeInt))"
| "universalDecoder (TUint k) opts = (TagInteger, Some (Primitive DecodeUint))"
| "universalDecoder (TStruct fs) opts =
     (TagSequence, Some (if set_opt opts then DecodeStructAsSet else DecodeStruct))"
| "universalDecoder (TArray n t) opts =
     (if t = TUint KUint8 then (TagOctetString, Some (Primitive DecodeOctetString))
      else (TagSequence, Some DecodeArray))"
| "universalDecoder (TSlice t) opts =
     (if t = TUint KUint8 then (TagOctetString, Some (Primitive DecodeOctetString))
      else (TagSequence, Some DecodeSlice))"
| "universalDecoder TInterface opts = (0, None)"
| "universalDecoder TOther opts = (0, None)"

definition getUniversalTag :: "gotype \<Rightarrow> fieldOptions \<Rightarrow> error + expectedElement" where
  \<open>getUniversalTag objType opts =
     (let (t, d) = universalDecoder objType opts in
      if set_opt opts then
        (if t \<noteq> TagSequence
         then Inl (SyntaxError ''Flag "set" can't be set to Go type "%s"'' [AType objType])
         else Inr \<lparr> eclass = ClassUniversal, etag = TagSet, decoder = d \<rparr>)
      else Inr \<lparr> eclass = ClassUniversal, etag = t, decoder = d \<rparr>)\<close>

text \<open>The conversion \<open>uint(i)\<close> of a 64-bit \<open>int\<close>.\<close>

definition uint_of_int :: "int \<Rightarrow> nat" where
  "uint_of_int i = nat (i mod 2 ^ 64)"

text \<open>
  \<open>getExpectedElement\<close> returns the expected element for a given type; \<open>raw\<close> is
  only used as hint when decoding choices. The three assignments of the class and the
  tag are made in the order of the source.
\<close>

definition overrideClassTag :: "fieldOptions \<Rightarrow> expectedElement \<Rightarrow> expectedElement" where
  "overrideClassTag opts elem =
     (let elem1 = (case tag opts of
                     Some t \<Rightarrow> elem\<lparr>eclass := ClassContextSpecific, etag := uint_of_int t\<rparr>
                   | None \<Rightarrow> elem);
          elem2 = (if universal opts then elem1\<lparr>eclass := ClassUniversal\<rparr> else elem1)
      in if application opts then elem2\<lparr>eclass := ClassApplication\<rparr> else elem2)"

definition getExpectedElement ::
  "Context \<Rightarrow> RawValue \<Rightarrow> gotype \<Rightarrow> fieldOptions \<Rightarrow> error + expectedElement" where
  \<open>getExpectedElement ctx raw elemType opts =
     (case getUniversalTag elemType opts of
        Inl e \<Rightarrow> Inl e
      | Inr elem0 \<Rightarrow>
          (let elem = overrideClassTag opts elem0 in
           if explicit opts then Inr (elem\<lparr>decoder := Some (ExplicitDecoder opts)\<rparr>)
           else
             (case choice opts of
                Some name \<Rightarrow>
                  (case getChoiceByTag ctx name (Class raw) (Tag raw) of
                     Inl e \<Rightarrow> Inl e
                   | Inr entry \<Rightarrow>
                       Inr \<lparr> eclass = Class raw, etag = Tag raw,
                             decoder = Some (ChoiceDecoder (entry_typ entry) (decoder entry)) \<rparr>)
              | None \<Rightarrow>
                  (if decoder elem = None
                   then Inl (ParseError ''Go type not supported "%s"'' [AType elemType])
                   else Inr elem))))\<close>

text \<open>
  \<open>AddChoice\<close> registers the entries one after the other and stops at the first
  error; the entries registered before the error stay in the context, which is
  returned with the error.
\<close>

fun AddChoice :: "Context \<Rightarrow> string \<Rightarrow> (gotype \<times> string) list \<Rightarrow> error option \<times> Context" where
  "AddChoice ctx name [] = (None, ctx)"
| \<open>AddChoice ctx name (e # entries) =
     (case parseOptions (snd e) of
        Inl err \<Rightarrow> (Some err, ctx)
      | Inr opts \<Rightarrow>
          (case choice opts of
             Some c \<Rightarrow>
               (Some (SyntaxError ''nested choices are not allowed: "%s" inside "%s".''
                        [AString c, AString name]), ctx)
           | None \<Rightarrow>
               (case getExpectedElement ctx zeroRawValue (fst e) opts of
                  Inl err \<Rightarrow> (Some err, ctx)
                | Inr elem \<Rightarrow>
                    (case addChoiceEntry ctx name
                            \<lparr> eclass = eclass elem, etag = etag elem, decoder = decoder elem,
                              entry_typ = fst e, entry_opts = opts \<rparr> of
                       Inl err \<Rightarrow> (Some err, ctx)
                     | Inr ctx' \<Rightarrow> AddChoice ctx' name entries))))\<close>

section \<open>Default values (asn1.go)\<close>

text \<open>
  \<open>setDefaultValue\<close> sets a reflected value to its default value based on the
  field options. \<open>SetInt\<close> and \<open>SetUint\<close> store the 64-bit argument in the width of
  the kind, which truncates it. The result is the new value of the field.
\<close>

definition truncInt :: "nat \<Rightarrow> int \<Rightarrow> int" where
  "truncInt w i = (i + 2 ^ (w - 1)) mod 2 ^ w - 2 ^ (w - 1)"

definition truncUint :: "nat \<Rightarrow> int \<Rightarrow> int" where
  "truncUint w i = i mod 2 ^ w"

fun setDefaultValue :: "gotype \<Rightarrow> fieldOptions \<Rightarrow> error + val" where
  "setDefaultValue (TInt k) opts =
     (case defaultValue opts of
        None \<Rightarrow> Inl (Panic ''invalid memory address or nil pointer dereference'')
      | Some d \<Rightarrow> Inr (VInt (truncInt (intBits k) d)))"
| "setDefaultValue (TUint k) opts =
     (case defaultValue opts of
        None \<Rightarrow> Inl (Panic ''invalid memory address or nil pointer dereference'')
      | Some d \<Rightarrow> Inr (VInt (truncUint (uintBits k) d)))"
| "setDefaultValue t opts = Inl (SyntaxError ''Default value is only allow to integers'' [])"

section \<open>Composite engine (decode.go)\<close>

text \<open>
  The functions of the package that are not part of the sources at hand are
  parameters of the model: \<open>decodeRawValue\<close>, which reads one raw TLV from the front
  of the bytes and returns it with the bytes that follow, and the decoders of the
  universal types, which get the context, the content octets and the type of the
  target and return the decoded value.
\<close>

record codecs =
  decodeRawValue :: "byte list \<Rightarrow> error + (RawValue \<times> byte list)"
  primitive :: "Context \<Rightarrow> primitiveDecoder \<Rightarrow> byte list \<Rightarrow> gotype \<Rightarrow> error + val"

text \<open>
  The functions below call element decoders; \<open>dec\<close> is what runs one: it gets the
  decoder, the content octets, the type of the target and its present value, and
  returns the new value of the target or the error.
\<close>

type_synonym run = "decoderFunction \<Rightarrow> byte list \<Rightarrow> gotype \<Rightarrow> val \<Rightarrow> error + val"

text \<open>
  \<open>getExpectedFieldElements\<close>: the expected elements of the fields of a struct, in
  declaration order. A choice field is expanded to one element per registered entry,
  resolved with the class and the tag of that entry as hint. The struct value is
  taken to be settable, as it is wherever the package calls this function.
\<close>

fun expandChoices ::
  "Context \<Rightarrow> nat \<times> gotype \<Rightarrow> fieldOptions \<Rightarrow> choiceEntry list \<Rightarrow>
     error + expectedFieldElement list" where
  "expandChoices ctx field opts [] = Inr []"
| "expandChoices ctx field opts (entry # entries) =
     (case getExpectedElement ctx
             (zeroRawValue\<lparr>Class := eclass entry, Tag := etag entry\<rparr>) (snd field) opts of
        Inl e \<Rightarrow> Inl e
      | Inr elem \<Rightarrow>
          (case expandChoices ctx field opts entries of
             Inl e \<Rightarrow> Inl e
           | Inr es \<Rightarrow>
               Inr (\<lparr> eclass = eclass elem, etag = etag elem, decoder = decoder elem,
                      fvalue = field, fopts = opts \<rparr> # es)))"

definition fieldElements ::
  "Context \<Rightarrow> nat \<times> gotype \<Rightarrow> string \<Rightarrow> error + expectedFieldElement list" where
  "fieldElements ctx field structTag =
     (case parseOptions structTag of
        Inl e \<Rightarrow> Inl e
      | Inr opts \<Rightarrow>
          (case choice opts of
             None \<Rightarrow>
               (case getExpectedElement ctx zeroRawValue (snd field) opts of
                  Inl e \<Rightarrow> Inl e
                | Inr elem \<Rightarrow>
                    Inr [\<lparr> eclass = eclass elem, etag = etag elem, decoder = decoder elem,
                           fvalue = field, fopts = opts \<rparr>])
           | Some name \<Rightarrow>
               (case getChoices ctx name of
                  Inl e \<Rightarrow> Inl e
                | Inr entries \<Rightarrow> expandChoices ctx field opts entries)))"

fun fieldLoop ::
  "Context \<Rightarrow> nat \<Rightarrow> (string \<times> gotype) list \<Rightarrow> error + expectedFieldElement list" where
  "fieldLoop ctx i [] = Inr []"
| "fieldLoop ctx i (f # fs) =
     (case fieldElements ctx (i, snd f) (fst f) of
        Inl e \<Rightarrow> Inl e
      | Inr es \<Rightarrow>
          (case fieldLoop ctx (Suc i) fs of
             Inl e \<Rightarrow> Inl e
           | Inr es' \<Rightarrow> Inr (es @ es')))"

definition getExpectedFieldElements ::
  "Context \<Rightarrow> (string \<times> gotype) list \<Rightarrow> error + expectedFieldElement list" where
  "getExpectedFieldElements ctx flds = fieldLoop ctx 0 flds"

text \<open>
  \<open>getRawValuesFromBytes\<close> reads up to \<open>max\<close> values from the byte sequence. The
  loop runs at most \<open>max\<close> times: \<open>k\<close> counts the iterations that are left.
\<close>

fun rawValuesLoop ::
  "codecs \<Rightarrow> nat \<Rightarrow> byte list \<Rightarrow> RawValue list \<Rightarrow> error + RawValue list" where
  "rawValuesLoop X 0 reader rawValues = Inl (ParseError ''Too many items for Sequence.'' [])"
| "rawValuesLoop X (Suc k) reader rawValues =
     (case decodeRawValue X reader of
        Inl e \<Rightarrow> Inl e
      | Inr (raw, rest) \<Rightarrow>
          (if rest = [] then Inr (rawValues @ [raw])
           else rawValuesLoop X k rest (rawValues @ [raw])))"

definition getRawValuesFromBytes :: "codecs \<Rightarrow> byte list \<Rightarrow> nat \<Rightarrow> error + RawValue list" where
  "getRawValuesFromBytes X data maxItems = rawValuesLoop X maxItems data []"

text \<open>
  \<open>matchExpectedValues\<close> tries to decode a sequence of raw values based on the
  expected elements. The loop over \<open>eIndex\<close> is a recursion over the elements from
  \<open>eIndex\<close> on; the elements after \<open>eIndex\<close> are the only ones the loop body
  changes. The state is the raw index and the values of the fields of the struct;
  the result is the values of the fields, or the error.
\<close>

definition invalidate :: "string \<Rightarrow> expectedFieldElement \<Rightarrow> expectedFieldElement" where
  "invalidate name e = (if choice (fopts e) = Some name then e\<lparr>decoder := None\<rparr> else e)"

definition removeOtherOptions ::
  "expectedFieldElement \<Rightarrow> expectedFieldElement list \<Rightarrow> expectedFieldElement list" where
  "removeOtherOptions e es =
     (case choice (fopts e) of None \<Rightarrow> es | Some name \<Rightarrow> map (invalidate name) es)"

function matchLoop ::
  "run \<Rightarrow> expectedFieldElement list \<Rightarrow> RawValue list \<Rightarrow> nat \<Rightarrow> val list \<Rightarrow> error + val list" where
  "matchLoop dec [] rValues rIndex vs = Inr vs"
| "matchLoop dec (e # es) rValues rIndex vs =
     (case decoder e of
        None \<Rightarrow> matchLoop dec es rValues rIndex vs
      | Some d \<Rightarrow>
          (if rIndex < length rValues \<and> eclass e = Class (rValues ! rIndex)
                \<and> etag e = Tag (rValues ! rIndex)
           then
             (case dec d (Content (rValues ! rIndex)) (snd (fvalue e)) (vs ! fst (fvalue e)) of
                Inl err \<Rightarrow> Inl err
              | Inr v \<Rightarrow>
                  matchLoop dec (removeOtherOptions e es) rValues (rIndex + 1)
                    (vs[fst (fvalue e) := v]))
           else if optional (fopts e) \<or> choice (fopts e) \<noteq> None then
             matchLoop dec es rValues rIndex vs
           else if defaultValue (fopts e) \<noteq> None then
             (case setDefaultValue (snd (fvalue e)) (fopts e) of
                Inl err \<Rightarrow> Inl err
              | Inr v \<Rightarrow> matchLoop dec es rValues rIndex (vs[fst (fvalue e) := v]))
           else Inl (ParseError ''Missing value for [%d %d]''
                       [AUint (eclass e), AUint (etag e)])))"
  by pat_completeness auto
termination
  by (relation "measure (\<lambda>(dec, es, rValues, rIndex, vs). length es)")
     (auto simp: removeOtherOptions_def split: option.splits)

definition matchExpectedValues ::
  "run \<Rightarrow> expectedFieldElement list \<Rightarrow> RawValue list \<Rightarrow> val list \<Rightarrow> error + val list" where
  "matchExpectedValues dec eValues rValues vs = matchLoop dec eValues rValues 0 vs"

text \<open>
  The values of the fields of a struct value, and the struct value with new values
  of its fields.
\<close>

fun structFields :: "val \<Rightarrow> val list" where
  "structFields (VStruct vs) = vs"
| "structFields v = []"

definition structResult :: "error + val list \<Rightarrow> error + val" where
  "structResult r = (case r of Inl e \<Rightarrow> Inl e | Inr vs \<Rightarrow> Inr (VStruct vs))"

text \<open>
  \<open>decodeStruct\<close> decodes struct fields in order. \<open>NumField\<close> panics for a type
  that is not a struct.
\<close>

fun decodeStruct :: "codecs \<Rightarrow> run \<Rightarrow> Context \<Rightarrow> byte list \<Rightarrow> gotype \<Rightarrow> val \<Rightarrow> error + val" where
  "decodeStruct X dec ctx data (TStruct flds) v =
     (case getExpectedFieldElements ctx flds of
        Inl e \<Rightarrow> Inl e
      | Inr expectedValues \<Rightarrow>
          (case getRawValuesFromBytes X data (length expectedValues) of
             Inl e \<Rightarrow> Inl e
           | Inr rawValues \<Rightarrow>
               structResult (matchExpectedValues dec expectedValues rawValues (structFields v))))"
| "decodeStruct X dec ctx data t v = Inl (Panic ''reflect: call of NumField on non-struct Value'')"

text \<open>
  Modelled from the spec: the sort order \<open>expectedFieldElementSlice\<close> is declared
  in a file that is not part of the sources at hand. SET decoding sorts the expected
  elements by (class, tag) ascending. Elements with the same class and tag keep their
  order here; \<open>sort.Sort\<close> leaves their order open.
\<close>

definition expectedKey :: "expectedFieldElement \<Rightarrow> nat \<times> nat" where
  "expectedKey e = (eclass e, etag e)"

definition sortExpected :: "expectedFieldElement list \<Rightarrow> expectedFieldElement list" where
  "sortExpected es = sort_key expectedKey es"

text \<open>
  Modelled from the spec: the sort order \<open>rawValueSlice\<close> is declared in a file that
  is not part of the sources at hand. In BER mode SET decoding sorts the raw values by
  (class, tag). Raw values with the same class and tag keep their order here.
\<close>

definition rawKey :: "RawValue \<Rightarrow> nat \<times> nat" where
  "rawKey r = (Class r, Tag r)"

definition sortRaw :: "RawValue list \<Rightarrow> RawValue list" where
  "sortRaw rs = sort_key rawKey rs"

text \<open>The check for duplicated tags: the first neighbours with the same class and tag.\<close>

fun checkDuplicated :: "expectedFieldElement list \<Rightarrow> error option" where
  "checkDuplicated (previous # current # es) =
     (if eclass current = eclass previous \<and> etag current = etag previous
      then Some (SyntaxError ''Duplicated tag (%d,%d)''
                   [AUint (eclass current), AUint (etag current)])
      else checkDuplicated (current # es))"
| "checkDuplicated es = None"

text \<open>
  \<open>decodeStructAsSet\<close> decodes a struct as an ASN.1 Set. With DER decoding the raw
  values are not sorted and are used in their natural order.
\<close>

fun decodeStructAsSet ::
  "codecs \<Rightarrow> run \<Rightarrow> Context \<Rightarrow> byte list \<Rightarrow> gotype \<Rightarrow> val \<Rightarrow> error + val" where
  "decodeStructAsSet X dec ctx data (TStruct flds) v =
     (case getExpectedFieldElements ctx flds of
        Inl e \<Rightarrow> Inl e
      | Inr es \<Rightarrow>
          (let expectedElements = sortExpected es in
           case checkDuplicated expectedElements of
             Some e \<Rightarrow> Inl e
           | None \<Rightarrow>
               (case getRawValuesFromBytes X data (length expectedElements) of
                  Inl e \<Rightarrow> Inl e
                | Inr rawValues \<Rightarrow>
                    structResult
                      (matchExpectedValues dec expectedElements
                         (if \<not> decoding (der ctx) then sortRaw rawValues else rawValues)
                         (structFields v)))))"
| "decodeStructAsSet X dec ctx data t v =
     Inl (Panic ''reflect: call of NumField on non-struct Value'')"

section \<open>Decoding one value (decode.go)\<close>

text \<open>
  \<open>decode\<close> is the main decode function. It parses one ASN.1 element from the
  reader, resolves the expected element, checks that class and tag match and calls
  the decoder on the content. The result is the new value of the target with the
  bytes left in the reader. A nil decoder cannot be called.
\<close>

definition decode ::
  "codecs \<Rightarrow> run \<Rightarrow> Context \<Rightarrow> byte list \<Rightarrow> gotype \<Rightarrow> val \<Rightarrow> fieldOptions \<Rightarrow>
     error + (val \<times> byte list)" where
  "decode X dec ctx reader t v opts =
     (case decodeRawValue X reader of
        Inl e \<Rightarrow> Inl e
      | Inr (raw, rest) \<Rightarrow>
          (if decoding (der ctx) \<and> Indefinite raw
           then Inl (ParseError ''Indefinite length form is not supported by DER mode'' [])
           else
             (case getExpectedElement ctx raw t opts of
                Inl e \<Rightarrow> Inl e
              | Inr elem \<Rightarrow>
                  (if Class raw \<noteq> eclass elem \<or> Tag raw \<noteq> etag elem
                   then Inl (ParseError ''Expected tag (%d,%d) but found (%d,%d)''
                               [AUint (eclass elem), AUint (etag elem),
                                AUint (Class raw), AUint (Tag raw)])
                   else
                     (case decoder elem of
                        None \<Rightarrow> Inl (Panic ''invalid memory address or nil pointer dereference'')
                      | Some d \<Rightarrow>
                          (case dec d (Content raw) t v of
                             Inl e \<Rightarrow> Inl e
                           | Inr v' \<Rightarrow> Inr (v', rest)))))))"

text \<open>
  The object given to \<open>DecodeWithOptions\<close>: a pointer to a value of some type,
  which can be set, or a value that is not a reference, which cannot.
\<close>

datatype target = Pointer gotype val | NonPointer gotype val

text \<open>
  \<open>(*Context).DecodeWithOptions\<close> decodes BER or DER data using an option string
  that is handled the same way as struct tags; \<open>(*Context).Decode\<close> decodes
  without an option string.
\<close>

definition Context_DecodeWithOptions ::
  "codecs \<Rightarrow> run \<Rightarrow> Context \<Rightarrow> byte list \<Rightarrow> target \<Rightarrow> string \<Rightarrow> error + (val \<times> byte list)" where
  \<open>Context_DecodeWithOptions X dec ctx data obj options =
     (case parseOptions options of
        Inl e \<Rightarrow> Inl e
      | Inr opts \<Rightarrow>
          (case obj of
             NonPointer t v \<Rightarrow> Inl (SyntaxError ''Go type "%s" is read-only'' [AType t])
           | Pointer t v \<Rightarrow> decode X dec ctx data t v opts))\<close>

definition Context_Decode ::
  "codecs \<Rightarrow> run \<Rightarrow> Context \<Rightarrow> byte list \<Rightarrow> target \<Rightarrow> error + (val \<times> byte list)" where
  "Context_Decode X dec ctx data obj = Context_DecodeWithOptions X dec ctx data obj ''''"

text \<open>
  \<open>decodeSlice\<close> decodes element after element while bytes are left. Nothing in
  this function bounds the number of rounds, so the loop has fuel.
\<close>

fun sliceLoop ::
  "(byte list \<Rightarrow> error + (val \<times> byte list)) \<Rightarrow> nat \<Rightarrow> byte list \<Rightarrow> val list \<Rightarrow>
     error + val list" where
  "sliceLoop D fuel [] elems = Inr elems"
| "sliceLoop D 0 (b # bs) elems = Inl OutOfFuel"
| "sliceLoop D (Suc fuel) (b # bs) elems =
     (case D (b # bs) of
        Inl e \<Rightarrow> Inl e
      | Inr (elem, rest) \<Rightarrow> sliceLoop D fuel rest (elems @ [elem]))"

fun decodeSlice ::
  "codecs \<Rightarrow> run \<Rightarrow> Context \<Rightarrow> nat \<Rightarrow> byte list \<Rightarrow> gotype \<Rightarrow> error + val" where
  "decodeSlice X dec ctx fuel data (TSlice t) =
     (case sliceLoop (\<lambda>d. Context_DecodeWithOptions X dec ctx d (Pointer t (zeroValue t)) '''')
             fuel data [] of
        Inl e \<Rightarrow> Inl e
      | Inr elems \<Rightarrow> Inr (VList elems))"
| "decodeSlice X dec ctx fuel data t = Inl (Panic ''reflect: Elem of invalid type'')"

text \<open>\<open>decodeArray\<close> decodes as many elements as the array has.\<close>

fun arrayLoop ::
  "(byte list \<Rightarrow> error + (val \<times> byte list)) \<Rightarrow> nat \<Rightarrow> byte list \<Rightarrow> val list \<Rightarrow>
     error + (val list \<times> byte list)" where
  "arrayLoop D 0 data elems = Inr (elems, data)"
| "arrayLoop D (Suc k) data elems =
     (if data = [] then Inl (ParseError ''Missing elements.'' [])
      else (case D data of
              Inl e \<Rightarrow> Inl e
            | Inr (elem, rest) \<Rightarrow> arrayLoop D k rest (elems @ [elem])))"

fun decodeArray :: "codecs \<Rightarrow> run \<Rightarrow> Context \<Rightarrow> byte list \<Rightarrow> gotype \<Rightarrow> error + val" where
  "decodeArray X dec ctx data (TArray n t) =
     (case arrayLoop (\<lambda>d. Context_DecodeWithOptions X dec ctx d (Pointer t (zeroValue t)) '''')
             n data [] of
        Inl e \<Rightarrow> Inl e
      | Inr (elems, rest) \<Rightarrow>
          (if rest \<noteq> [] then Inl (ParseError ''Too many elements.'' [])
           else Inr (VList elems)))"
| "decodeArray X dec ctx data t = Inl (Panic ''reflect: call of reflect.Value.Len on invalid Value'')"

section \<open>Running a decoder\<close>

text \<open>
  \<open>runDecoder\<close> calls a decoder function on the content octets and a target of
  type \<open>t\<close> with value \<open>v\<close>. Decoders call decoders; every call takes one unit of
  fuel. The closure for \<open>explicit\<close> unsets the flags \<open>explicit\<close>, \<open>tag\<close> and
  \<open>application\<close> of its options and parses the child. The closure for \<open>choice\<close>
  allocates a new value of the type of the entry, decodes into it and sets the target
  to it: \<open>Set\<close> panics unless the target is an interface or has this type.
\<close>

primrec runDecoder ::
  "codecs \<Rightarrow> Context \<Rightarrow> nat \<Rightarrow> decoderFunction \<Rightarrow> byte list \<Rightarrow> gotype \<Rightarrow> val \<Rightarrow> error + val" where
  "runDecoder X ctx 0 d data t v = Inl OutOfFuel"
| "runDecoder X ctx (Suc n) d data t v =
     (case d of
        Primitive p \<Rightarrow> primitive X ctx p data t
      | DecodeStruct \<Rightarrow> decodeStruct X (runDecoder X ctx n) ctx data t v
      | DecodeStructAsSet \<Rightarrow> decodeStructAsSet X (runDecoder X ctx n) ctx data t v
      | DecodeArray \<Rightarrow> decodeArray X (runDecoder X ctx n) ctx data t
      | DecodeSlice \<Rightarrow> decodeSlice X (runDecoder X ctx n) ctx n data t
      | ExplicitDecoder opts \<Rightarrow>
          (case decode X (runDecoder X ctx n) ctx data t v
                  (opts\<lparr>explicit := False, tag := None, application := False\<rparr>) of
             Inl e \<Rightarrow> Inl e
           | Inr (v', rest) \<Rightarrow> Inr v')
      | ChoiceDecoder ty entryDecoder \<Rightarrow>
          (case entryDecoder of
             None \<Rightarrow> Inl (Panic ''invalid memory address or nil pointer dereference'')
           | Some d' \<Rightarrow>
               (case runDecoder X ctx n d' data ty (zeroValue ty) of
                  Inl e \<Rightarrow> Inl e
                | Inr nestedValue \<Rightarrow>
                    (if t = TInterface then Inr (VInterface (Some (ty, nestedValue)))
                     else if t = ty then Inr nestedValue
                     else Inl (Panic ''reflect.Set: value is not assignable to type'')))))"

section \<open>The package functions (asn1.go)\<close>

text \<open>
  \<open>Decode\<close> and \<open>DecodeWithOptions\<close> decode with the default context;
  \<open>Encode\<close> and \<open>EncodeWithOptions\<close> encode with it. The encoder of a context,
  \<open>(*Context).EncodeWithOptions\<close>, is not part of the sources at hand and is the
  parameter \<open>enc\<close>.
\<close>

definition DecodeWithOptions ::
  "codecs \<Rightarrow> nat \<Rightarrow> byte list \<Rightarrow> target \<Rightarrow> string \<Rightarrow> error + (val \<times> byte list)" where
  "DecodeWithOptions X fuel data obj options =
     Context_DecodeWithOptions X (runDecoder X NewContext fuel) NewContext data obj options"

definition Decode :: "codecs \<Rightarrow> nat \<Rightarrow> byte list \<Rightarrow> target \<Rightarrow> error + (val \<times> byte list)" where
  "Decode X fuel data obj =
     Context_DecodeWithOptions X (runDecoder X NewContext fuel) NewContext data obj ''''"

definition EncodeWithOptions :: "(Context \<Rightarrow> 'o \<Rightarrow> string \<Rightarrow> 'r) \<Rightarrow> 'o \<Rightarrow> string \<Rightarrow> 'r" where
  "EncodeWithOptions enc obj options = enc NewContext obj options"

definition Encode :: "(Context \<Rightarrow> 'o \<Rightarrow> string \<Rightarrow> 'r) \<Rightarrow> 'o \<Rightarrow> 'r" where
  "Encode enc obj = enc NewContext obj ''''"

section \<open>The raw TLV reader and the universal-type decoders\<close>

text \<open>
  Modelled from the spec: the raw TLV reader is not part of the sources at hand; this
  is the tag number in the long form of the identifier octets. It follows the first
  octet as base-128 big-endian bytes with MSB continuation; the last byte has its MSB
  clear. Reading fails with ParseError "malformed tag" if the continuation does not end
  before the end of the input. The arithmetic for large tags is that of a 64-bit
  \<open>uint\<close>, unchecked.
\<close>

fun decodeLongTag :: "nat \<Rightarrow> byte list \<Rightarrow> error + (nat \<times> byte list)" where
  "decodeLongTag acc [] = Inl (ParseError ''malformed tag'' [])"
| "decodeLongTag acc (b # bs) =
     (if b AND 0x80 = 0 then Inr ((acc * 128 + unat (b AND 0x7F)) mod 2 ^ 64, bs)
      else decodeLongTag ((acc * 128 + unat (b AND 0x7F)) mod 2 ^ 64) bs)"

text \<open>
  Modelled from the spec: the identifier octets. The first octet holds the class in
  its high two bits, the constructed flag in bit 5 and a tag number. Tag numbers 0 to
  30 fit in the low five bits; the long form has the low five bits 11111. Reading
  fails with ParseError "malformed tag" also if the leading long-form byte is 0x00.
\<close>

fun decodeIdentifier :: "byte list \<Rightarrow> error + ((nat \<times> nat \<times> bool) \<times> byte list)" where
  "decodeIdentifier [] = Inl (ParseError ''truncated input'' [])"
| "decodeIdentifier (b # bs) =
     (if unat (b AND 0x1F) < 31
      then Inr ((unat (drop_bit 6 b), unat (b AND 0x1F), b AND 0x20 \<noteq> 0), bs)
      else if bs = [] \<or> hd bs = 0 then Inl (ParseError ''malformed tag'' [])
      else (case decodeLongTag 0 bs of
              Inl e \<Rightarrow> Inl e
            | Inr (t, rest) \<Rightarrow> Inr ((unat (drop_bit 6 b), t, b AND 0x20 \<noteq> 0), rest)))"

text \<open>Modelled from the spec: the value of big-endian length bytes.\<close>

definition bigEndian :: "byte list \<Rightarrow> nat" where
  "bigEndian bs = foldl (\<lambda>n b. n * 256 + unat b) 0 bs"

text \<open>
  Modelled from the spec: the length octets. Short form: a single byte 0 to 127 is
  the length. Long form: a leading byte \<open>0x80 | n\<close> with \<open>1 \<le> n \<le> 126\<close> introduces
  \<open>n\<close> big-endian length bytes. Indefinite form: the leading byte 0x80. The result is
  the length and whether the form is indefinite. The arithmetic for large lengths is
  that of a 64-bit \<open>uint\<close>, unchecked.
\<close>

fun decodeLength :: "byte list \<Rightarrow> error + ((nat \<times> bool) \<times> byte list)" where
  "decodeLength [] = Inl (ParseError ''truncated input'' [])"
| "decodeLength (b # bs) =
     (if b AND 0x80 = 0 then Inr ((unat b, False), bs)
      else if b = 0x80 then Inr ((0, True), bs)
      else if b = 0xFF then Inl (ParseError ''malformed length'' [])
      else if length bs < unat (b AND 0x7F) then Inl (ParseError ''truncated input'' [])
      else Inr ((bigEndian (take (unat (b AND 0x7F)) bs) mod 2 ^ 64, False),
                drop (unat (b AND 0x7F)) bs))"

text \<open>
  Modelled from the spec: the raw TLV read. With a definite length the content is the
  next bytes of that number. With the indefinite form the outer constructed bit must
  be set, the reader recurses, and the content is the concatenation of the child TLVs
  up to, but excluding, the terminating end-of-contents TLV \<open>00 00\<close>. The recursion
  has fuel.
\<close>

fun readRawValue :: "nat \<Rightarrow> byte list \<Rightarrow> error + (RawValue \<times> byte list)"
  and readChildren :: "nat \<Rightarrow> byte list \<Rightarrow> byte list \<Rightarrow> error + (byte list \<times> byte list)" where
  "readRawValue 0 data = Inl OutOfFuel"
| "readRawValue (Suc n) data =
     (case decodeIdentifier data of
        Inl e \<Rightarrow> Inl e
      | Inr ((cls, t, constr), afterId) \<Rightarrow>
          (case decodeLength afterId of
             Inl e \<Rightarrow> Inl e
           | Inr ((len, indef), afterLen) \<Rightarrow>
               (if indef then
                  (if \<not> constr
                   then Inl (ParseError ''indefinite length on a primitive value'' [])
                   else (case readChildren n afterLen [] of
                           Inl e \<Rightarrow> Inl e
                         | Inr (content, rest) \<Rightarrow>
                             Inr (\<lparr> Class = cls, Tag = t, Constructed = constr,
                                    Indefinite = True, Content = content \<rparr>, rest)))
                else if length afterLen < len then Inl (ParseError ''truncated input'' [])
                else Inr (\<lparr> Class = cls, Tag = t, Constructed = constr,
                            Indefinite = False, Content = take len afterLen \<rparr>,
                          drop len afterLen))))"
| "readChildren 0 data content = Inl OutOfFuel"
| "readChildren (Suc n) data content =
     (if take 2 data = [0, 0] then Inr (content, drop 2 data)
      else (case readRawValue n data of
              Inl e \<Rightarrow> Inl e
            | Inr (child, rest) \<Rightarrow>
                readChildren n rest (content @ take (length data - length rest) data)))"

text \<open>
  Modelled from the spec: \<open>decodeRawValue\<close>, the raw TLV read on a reader that
  holds \<open>data\<close>. Every TLV has at least two octets, so a fuel of one more than the
  number of input bytes is enough for every nesting.
\<close>

definition specDecodeRawValue :: "byte list \<Rightarrow> error + (RawValue \<times> byte list)" where
  "specDecodeRawValue data = readRawValue (Suc (length data)) data"

text \<open>
  Modelled from the spec: the decoders of the universal types are not part of the
  sources at hand; this is the value of INTEGER content octets, two's complement.
\<close>

definition twosComplement :: "byte list \<Rightarrow> int" where
  "twosComplement bs =
     (if bs \<noteq> [] \<and> hd bs AND 0x80 \<noteq> 0
      then int (bigEndian bs) - 2 ^ (8 * length bs)
      else int (bigEndian bs))"

text \<open>
  Modelled from the spec: integer decoders reject zero-length content; under DER the
  leading-byte rule holds (no redundant 0x00 or 0xFF).
\<close>

definition checkInteger :: "Context \<Rightarrow> byte list \<Rightarrow> error option" where
  "checkInteger ctx data =
     (if data = [] then Some (ParseError ''integer without content'' [])
      else if decoding (der ctx) \<and> 2 \<le> length data \<and>
              ((data ! 0 = 0 \<and> (data ! 1) AND 0x80 = 0) \<or>
               (data ! 0 = 0xFF \<and> (data ! 1) AND 0x80 \<noteq> 0))
        then Some (ParseError ''integer is not minimally encoded'' [])
      else None)"

text \<open>
  Modelled from the spec: integer decoders reject encodings exceeding the target
  width; \<open>lo\<close> and \<open>hi\<close> bound the values of the target.
\<close>

definition specDecodeInteger :: "Context \<Rightarrow> byte list \<Rightarrow> int \<Rightarrow> int \<Rightarrow> error + val" where
  "specDecodeInteger ctx data lo hi =
     (case checkInteger ctx data of
        Some e \<Rightarrow> Inl e
      | None \<Rightarrow>
          (if lo \<le> twosComplement data \<and> twosComplement data < hi
           then Inr (VInt (twosComplement data))
           else Inl (ParseError ''integer exceeds the target width'' [])))"

text \<open>
  Modelled from the spec: the arcs of an OID, base-128 with MSB continuation;
  non-minimal leading bytes are rejected. \<open>leading\<close> says that the next byte starts
  an arc.
\<close>

fun oidArcs :: "nat \<Rightarrow> bool \<Rightarrow> byte list \<Rightarrow> error + nat list" where
  "oidArcs acc leading [] =
     (if leading then Inr [] else Inl (ParseError ''truncated object identifier arc'' []))"
| "oidArcs acc leading (b # bs) =
     (if leading \<and> b = 0x80 then Inl (ParseError ''non-minimal object identifier arc'' [])
      else if b AND 0x80 = 0 then
        (case oidArcs 0 True bs of
           Inl e \<Rightarrow> Inl e
         | Inr arcs \<Rightarrow> Inr ((acc * 128 + unat (b AND 0x7F)) # arcs))
      else oidArcs (acc * 128 + unat (b AND 0x7F)) False bs)"

text \<open>
  Modelled from the spec: the OID decoder. The first byte is \<open>40 * v1 + v2\<close> with
  \<open>v1\<close> in 0, 1, 2, where \<open>v1 = 2\<close> allows \<open>v2\<close> unbounded.
\<close>

definition specDecodeOid :: "byte list \<Rightarrow> error + val" where
  "specDecodeOid data =
     (case oidArcs 0 True data of
        Inl e \<Rightarrow> Inl e
      | Inr [] \<Rightarrow> Inl (ParseError ''object identifier without content'' [])
      | Inr (s # arcs) \<Rightarrow>
          Inr (VOid ((if s < 40 then [0, s] else if s < 80 then [1, s - 40] else [2, s - 80])
                     @ arcs)))"

text \<open>
  Modelled from the spec: the decoders of the universal types. BOOLEAN: TRUE is 0xFF
  under DER, any non-zero byte decodes true in BER. INTEGER: a signed or unsigned
  integer of the width of the target, or an arbitrary-precision integer. OCTET STRING:
  the raw byte sequence, with no character-set validation. NULL: the length must be 0.
  \<open>SetInt\<close> and \<open>SetUint\<close> panic for a target of another kind.
\<close>

fun specPrimitive :: "Context \<Rightarrow> primitiveDecoder \<Rightarrow> byte list \<Rightarrow> gotype \<Rightarrow> error + val" where
  "specPrimitive ctx DecodeBool data t =
     (if length data \<noteq> 1 then Inl (ParseError ''boolean must have one content octet'' [])
      else if decoding (der ctx) \<and> hd data \<noteq> 0 \<and> hd data \<noteq> 0xFF
        then Inl (ParseError ''boolean is not 0x00 or 0xFF'' [])
      else Inr (VBool (hd data \<noteq> 0)))"
| "specPrimitive ctx DecodeInt data (TInt k) =
     specDecodeInteger ctx data (- (2 ^ (intBits k - 1))) (2 ^ (intBits k - 1))"
| "specPrimitive ctx DecodeUint data (TUint k) =
     specDecodeInteger ctx data 0 (2 ^ uintBits k)"
| "specPrimitive ctx DecodeBigInt data t =
     (case checkInteger ctx data of
        Some e \<Rightarrow> Inl e
      | None \<Rightarrow> Inr (VInt (twosComplement data)))"
| "specPrimitive ctx DecodeString data t = Inr (VBytes data)"
| "specPrimitive ctx DecodeOctetString data t = Inr (VBytes data)"
| "specPrimitive ctx DecodeNull data t =
     (if data = [] then Inr VNull else Inl (ParseError ''null must have no content'' []))"
| "specPrimitive ctx DecodeOid data t = specDecodeOid data"
| "specPrimitive ctx DecodeInt data t = Inl (Panic ''reflect: call of SetInt on a value of another kind'')"
| "specPrimitive ctx DecodeUint data t = Inl (Panic ''reflect: call of SetUint on a value of another kind'')"

text \<open>
  Modelled from the spec: the reader and the decoders of the universal types, as the
  parameters of the functions above.
\<close>

definition specCodecs :: codecs where
  "specCodecs = \<lparr> decodeRawValue = specDecodeRawValue, primitive = specPrimitive \<rparr>"

section \<open>Raw TLVs that differ in the constructed flag\<close>

text \<open>
  \<open>exceptConstructed r' r\<close>: the raw TLVs \<open>r'\<close> and \<open>r\<close> are identical except for
  the constructed flag. \<open>sameReads X' X\<close>: on every input the reader of \<open>X'\<close> fails
  as the reader of \<open>X\<close> does, or both return raw TLVs that are identical except for
  the constructed flag, with the same bytes left.
\<close>

definition exceptConstructed :: "RawValue \<Rightarrow> RawValue \<Rightarrow> bool" where
  "exceptConstructed r' r = (r' = r\<lparr>Constructed := Constructed r'\<rparr>)"

definition sameReads :: "codecs \<Rightarrow> codecs \<Rightarrow> bool" where
  "sameReads X' X =
     (\<forall>d. rel_sum (=) (rel_prod exceptConstructed (=)) (decodeRawValue X' d) (decodeRawValue X d))"

text \<open>A reader that reports the opposite constructed flag of every TLV it reads.\<close>

definition flipConstructed :: "codecs \<Rightarrow> codecs" where
  "flipConstructed X =
     X\<lparr>decodeRawValue := (\<lambda>d. case decodeRawValue X d of
                                 Inl e \<Rightarrow> Inl e
                               | Inr (r, rest) \<Rightarrow> Inr (r\<lparr>Constructed := \<not> Constructed r\<rparr>, rest))\<rparr>"

section \<open>The matching of a SEQUENCE, in the words of the spec\<close>

text \<open>
  The matching as the spec words it, to be compared with \<open>matchExpectedValues\<close>.
  A choice field is expanded to one element per registered alternative; these
  siblings share the target storage, the field of the struct, which the first
  component of \<open>fvalue\<close> names. The expected elements are scanned in order against the
  raw values with a single advancing raw index \<open>i\<close>; the list of expected elements
  never changes, and \<open>F\<close> holds the fields of the choice elements that have been
  matched.
  \<^item> An element that has been invalidated is skipped: it has no decoder, or it is a
    sibling of a choice element that has been matched, that is, its field is in \<open>F\<close>.
  \<^item> If its (class, tag) equals the (class, tag) of the current raw value, its codec
    is invoked and the raw index advances; if the element belongs to a choice group,
    its siblings are invalidated. An error of the codec ends the matching.
  \<^item> Otherwise the element is missing: if it is optional or part of a choice group,
    it is skipped; if it has a default, the default is assigned to the field; else
    the matching fails with the ParseError "Missing value" for its (class, tag).
  Assigning the default converts it to the integer kind of the field, and fails with
  a SyntaxError for a field of another kind.
\<close>

definition invalidated :: "nat list \<Rightarrow> expectedFieldElement \<Rightarrow> bool" where
  "invalidated F e = (decoder e = None \<or> fst (fvalue e) \<in> set F)"

definition invalidateSiblings :: "expectedFieldElement \<Rightarrow> nat list \<Rightarrow> nat list" where
  "invalidateSiblings e F = (if choice (fopts e) = None then F else fst (fvalue e) # F)"

fun assignDefault :: "gotype \<Rightarrow> int \<Rightarrow> error + val" where
  "assignDefault (TInt k) d = Inr (VInt (truncInt (intBits k) d))"
| "assignDefault (TUint k) d = Inr (VInt (truncUint (uintBits k) d))"
| "assignDefault t d = Inl (SyntaxError ''Default value is only allow to integers'' [])"

fun specMatching ::
  "run \<Rightarrow> expectedFieldElement list \<Rightarrow> RawValue list \<Rightarrow> nat \<Rightarrow> nat list \<Rightarrow> val list \<Rightarrow>
     error + val list" where
  "specMatching dec [] raws i F vs = Inr vs"
| "specMatching dec (e # es) raws i F vs =
     (if invalidated F e then specMatching dec es raws i F vs
      else if i < length raws \<and> (eclass e, etag e) = (Class (raws ! i), Tag (raws ! i)) then
        (case dec (the (decoder e)) (Content (raws ! i)) (snd (fvalue e)) (vs ! fst (fvalue e)) of
           Inl err \<Rightarrow> Inl err
         | Inr v \<Rightarrow>
             specMatching dec es raws (i + 1) (invalidateSiblings e F) (vs[fst (fvalue e) := v]))
      else if optional (fopts e) \<or> choice (fopts e) \<noteq> None then
        specMatching dec es raws i F vs
      else
        (case defaultValue (fopts e) of
           Some d \<Rightarrow>
             (case assignDefault (snd (fvalue e)) d of
                Inl err \<Rightarrow> Inl err
              | Inr v \<Rightarrow> specMatching dec es raws i F (vs[fst (fvalue e) := v]))
         | None \<Rightarrow>
             Inl (ParseError ''Missing value for [%d %d]''
                    [AUint (eclass e), AUint (etag e)])))"

text \<open>
  The structs and the lists of expected elements in which every choice group belongs
  to one field: no two fields of the struct name the same choice, so that the
  elements with the choice of a choice element are the elements of its field.
  \<open>choiceOf\<close> is the choice that the struct tag of a field names.
\<close>

definition choiceOf :: "string \<Rightarrow> string option" where
  "choiceOf structTag = (case parseOptions structTag of Inl e \<Rightarrow> None | Inr opts \<Rightarrow> choice opts)"

definition distinctChoices :: "(string \<times> gotype) list \<Rightarrow> bool" where
  "distinctChoices flds =
     distinct (filter (\<lambda>c. c \<noteq> None) (map (\<lambda>f. choiceOf (fst f)) flds))"

definition oneFieldPerChoice :: "expectedFieldElement list \<Rightarrow> bool" where
  "oneFieldPerChoice es =
     (\<forall>e \<in> set es. \<forall>e' \<in> set es. choice (fopts e) \<noteq> None \<longrightarrow>
        (choice (fopts e') = choice (fopts e)) = (fst (fvalue e') = fst (fvalue e)))"

text \<open>
  \<open>namedIn G e\<close>: the element \<open>e\<close> belongs to one of the choice groups named in \<open>G\<close>.
  \<open>inval G e\<close> is the element \<open>e\<close> as \<open>matchExpectedValues\<close> holds it once elements
  of the choice groups named in \<open>G\<close> have been matched: with the nil decoder if it
  belongs to one of them.
\<close>

definition namedIn :: "string list \<Rightarrow> expectedFieldElement \<Rightarrow> bool" where
  "namedIn G e = (case choice (fopts e) of None \<Rightarrow> False | Some name \<Rightarrow> name \<in> set G)"

definition inval :: "string list \<Rightarrow> expectedFieldElement \<Rightarrow> expectedFieldElement" where
  "inval G e = (if namedIn G e then e\<lparr>decoder := None\<rparr> else e)"

text \<open>The integer kinds: the kinds for which \<open>setDefaultValue\<close> sets a value.\<close>

fun isIntegerKind :: "gotype \<Rightarrow> bool" where
  "isIntegerKind (TInt k) = True"
| "isIntegerKind (TUint k) = True"
| "isIntegerKind t = False"


section \<open>Option-record validation\<close>

lemma parseBoolOption_error: "parseBoolOption args = Inl e \<Longrightarrow> isSyntaxError e"
  by (auto simp: parseBoolOption_def split: if_splits)

lemma parseIntOption_error: "parseIntOption args = Inl e \<Longrightarrow> isSyntaxError e"
  by (auto simp: parseIntOption_def split: if_splits option.splits)

lemma parseStringOption_error: "parseStringOption args = Inl e \<Longrightarrow> isSyntaxError e"
  by (auto simp: parseStringOption_def split: if_splits)

lemma Split_not_Nil: "Split s c \<noteq> []"
  by (induction s) (auto split: list.splits)

lemma parseOption_error: "args \<noteq> [] \<Longrightarrow> parseOption opts args = Inl e \<Longrightarrow> isSyntaxError e"
  unfolding parseOption_def
  by (auto split: if_splits sum.splits list.splits
      dest: parseBoolOption_error parseIntOption_error parseStringOption_error)

lemma parseTokens_error: "parseTokens opts tokens = Inl e \<Longrightarrow> isSyntaxError e"
  by (induction tokens arbitrary: opts)
    (auto split: sum.splits dest: parseOption_error [OF Split_not_Nil])

lemma validate_error: "validate opts = Some e \<Longrightarrow> isSyntaxError e"
  by (auto simp: validate_def split: if_splits)

lemma validate_None:
  "validate opts = None \<Longrightarrow>
     (universal opts \<longrightarrow> tag opts \<noteq> None) \<and> (application opts \<longrightarrow> tag opts \<noteq> None) \<and>
     (\<forall>t. tag opts = Some t \<longrightarrow> 0 \<le> t) \<and> (\<forall>c. choice opts = Some c \<longrightarrow> c \<noteq> '''')"
  by (auto simp: validate_def split: if_splits)

text \<open>
  Claim C3. For every annotation string, \<open>parseOptions\<close> either fails with a
  SyntaxError or returns an option record in which universal implies that the tag is
  set, application implies that the tag is set, a tag that is set is not negative, and a
  choice that is set is not the empty string.
\<close>

theorem parseOptions_validated:
  "case parseOptions s of
     Inl e \<Rightarrow> isSyntaxError e
   | Inr opts \<Rightarrow>
       (universal opts \<longrightarrow> tag opts \<noteq> None) \<and> (application opts \<longrightarrow> tag opts \<noteq> None) \<and>
       (\<forall>t. tag opts = Some t \<longrightarrow> 0 \<le> t) \<and> (\<forall>c. choice opts = Some c \<longrightarrow> c \<noteq> '''')"
proof (cases "parseTokens zeroOptions (Split s CHR '','')")
  case (Inl e)
  then show ?thesis
    by (simp add: parseOptions_def parseTokens_error)
next
  case (Inr opts)
  show ?thesis
  proof (cases "validate opts")
    case None
    with Inr validate_None [OF None] show ?thesis
      by (simp add: parseOptions_def)
  next
    case (Some e)
    with Inr show ?thesis
      by (simp add: parseOptions_def validate_error)
  qed
qed

lemma parseOptions_example:
  "parseOptions ''universal, tag:5 ,choice:x'' =
     Inr (zeroOptions\<lparr>universal := True, tag := Some 5, choice := Some ''x''\<rparr>)"
  by code_simp

theorem parseOptions_validated_witness:
  "case parseOptions ''universal, tag:5 ,choice:x'' of
     Inl e \<Rightarrow> False
   | Inr opts \<Rightarrow> universal opts \<and> tag opts = Some 5 \<and> choice opts = Some ''x''"
  using parseOptions_validated [of "''universal, tag:5 ,choice:x''"]
  by (simp add: parseOptions_example zeroOptions_def)

section \<open>Class and tag overrides\<close>

lemma eclass_overrideClassTag:
  "eclass (overrideClassTag opts elem) =
     (if application opts then ClassApplication
      else if universal opts then ClassUniversal
      else if tag opts = None then eclass elem else ClassContextSpecific)"
  by (simp add: overrideClassTag_def Let_def split: option.splits)

lemma etag_overrideClassTag:
  "etag (overrideClassTag opts elem) =
     (case tag opts of Some n \<Rightarrow> uint_of_int n | None \<Rightarrow> etag elem)"
  by (simp add: overrideClassTag_def Let_def split: option.splits)

lemma decoder_overrideClassTag: "decoder (overrideClassTag opts elem) = decoder elem"
  by (simp add: overrideClassTag_def Let_def split: option.splits)

lemma getUniversalTag_eclass:
  "getUniversalTag t opts = Inr elem \<Longrightarrow> eclass elem = ClassUniversal"
  by (auto simp: getUniversalTag_def Let_def split: prod.splits if_splits)

lemma uint_of_int_nat: "0 \<le> n \<Longrightarrow> n < 2 ^ 64 \<Longrightarrow> int (uint_of_int n) = n"
  by (simp add: uint_of_int_def)

text \<open>
  Claim C4, as amended. For every value type and option record accepted by the
  resolver with \<open>explicit\<close> set or \<open>choice\<close> not set: the class of the expected
  element is Application if the application flag is set, else Universal if the
  universal flag is set, else ContextSpecific if the option tag is set; and if the
  option tag is set, the tag of the expected element is the option tag. With
  \<open>choice\<close> set and \<open>explicit\<close> not set, the class and the tag are those of the
  raw TLV, whatever the other options say.
\<close>

theorem getExpectedElement_overrides:
  assumes "getExpectedElement ctx raw t opts = Inr elem"
  shows "(explicit opts \<or> choice opts = None \<longrightarrow>
            eclass elem =
              (if application opts then ClassApplication
               else if universal opts then ClassUniversal
               else if tag opts = None then ClassUniversal else ClassContextSpecific) \<and>
            (\<forall>n. tag opts = Some n \<longrightarrow> etag elem = uint_of_int n) \<and>
            (\<forall>n. tag opts = Some n \<and> 0 \<le> n \<and> n < 2 ^ 64 \<longrightarrow> int (etag elem) = n)) \<and>
         (\<not> explicit opts \<and> choice opts \<noteq> None \<longrightarrow>
            eclass elem = Class raw \<and> etag elem = Tag raw)"
proof -
  from assms obtain elem0 where u: "getUniversalTag t opts = Inr elem0"
    by (auto simp: getExpectedElement_def split: sum.splits)
  have c0: "eclass elem0 = ClassUniversal"
    using u by (rule getUniversalTag_eclass)
  show ?thesis
  proof (cases "explicit opts")
    case True
    with assms u
    have "elem = (overrideClassTag opts elem0)\<lparr>decoder := Some (ExplicitDecoder opts)\<rparr>"
      by (simp add: getExpectedElement_def Let_def)
    with True c0 show ?thesis
      by (auto simp: eclass_overrideClassTag etag_overrideClassTag uint_of_int_nat)
  next
    case False
    show ?thesis
    proof (cases "choice opts")
      case None
      with assms u False have "elem = overrideClassTag opts elem0"
        by (simp add: getExpectedElement_def Let_def split: if_splits)
      with None c0 show ?thesis
        by (auto simp: eclass_overrideClassTag etag_overrideClassTag uint_of_int_nat)
    next
      case (Some name)
      with assms u False show ?thesis
        by (auto simp: getExpectedElement_def Let_def split: sum.splits)
    qed
  qed
qed

lemma getExpectedElement_application_example:
  "getExpectedElement NewContext zeroRawValue (TInt KInt)
       (zeroOptions\<lparr>application := True, tag := Some 3\<rparr>) =
     Inr \<lparr> eclass = 1, etag = 3, decoder = Some (Primitive DecodeInt) \<rparr>"
  by code_simp

text \<open>An integer with the options \<open>application,tag:3\<close> is expected as [APPLICATION 3].\<close>

theorem getExpectedElement_overrides_witness:
  "getExpectedElement NewContext zeroRawValue (TInt KInt)
       (zeroOptions\<lparr>application := True, tag := Some 3\<rparr>) =
     Inr \<lparr> eclass = 1, etag = 3, decoder = Some (Primitive DecodeInt) \<rparr> \<and>
   eclass \<lparr> eclass = 1, etag = 3, decoder = Some (Primitive DecodeInt) \<rparr> = ClassApplication \<and>
   int (etag \<lparr> eclass = 1, etag = 3, decoder = Some (Primitive DecodeInt) \<rparr>) = 3"
  using getExpectedElement_overrides [OF getExpectedElement_application_example]
    getExpectedElement_application_example
  by (simp add: zeroOptions_def)

text \<open>
  The claim as stated fails for a choice field: with the integer registered under the
  choice \<open>X\<close>, the annotation \<open>tag:5,choice:X\<close> is accepted, and for the raw TLV of
  an INTEGER the expected element is (Universal, 2), not (ContextSpecific, 5).
\<close>

theorem getExpectedElement_choice_counterexample:
  "parseOptions ''tag:5,choice:X'' =
     Inr (zeroOptions\<lparr>tag := Some 5, choice := Some ''X''\<rparr>) \<and>
   getExpectedElement (snd (AddChoice NewContext ''X'' [(TInt KInt, '''')]))
       (zeroRawValue\<lparr>Class := ClassUniversal, Tag := TagInteger\<rparr>) TInterface
       (zeroOptions\<lparr>tag := Some 5, choice := Some ''X''\<rparr>) =
     Inr \<lparr> eclass = ClassUniversal, etag = TagInteger,
           decoder = Some (ChoiceDecoder (TInt KInt) (Some (Primitive DecodeInt))) \<rparr> \<and>
   ClassUniversal \<noteq> ClassContextSpecific \<and> TagInteger \<noteq> 5"
  by code_simp

section \<open>Choice registry\<close>

text \<open>
  Claim C5. Registering under one name a second variant with the class and the tag of
  a variant already registered fails. The error is the plain error of \<open>fmt.Errorf\<close>:
  at the input below, twice the integer under the name \<open>X\<close>, it is not a
  SyntaxError.
\<close>

theorem AddChoice_duplicate_error:
  "fst (AddChoice NewContext ''X'' [(TInt KInt, ''''), (TInt KInt, '''')]) =
     Some (ErrorString ''Choice already registered: %s{%d, %d}''
             [AString ''X'', AUint 0, AUint 2])"
  by code_simp

theorem AddChoice_duplicate_error_witness:
  "\<not> isSyntaxError
       (the (fst (AddChoice NewContext ''X'' [(TInt KInt, ''''), (TInt KInt, '''')])))"
  using AddChoice_duplicate_error by simp

section \<open>Duplicated tags in a SET\<close>

lemma checkDuplicated_sorted:
  "sorted (map expectedKey xs) \<Longrightarrow> \<not> distinct (map expectedKey xs) \<Longrightarrow>
     \<exists>as. checkDuplicated xs = Some (SyntaxError ''Duplicated tag (%d,%d)'' as)"
proof (induction xs rule: checkDuplicated.induct)
  case (1 previous current es)
  show ?case
  proof (cases "expectedKey current = expectedKey previous")
    case True
    then show ?thesis by (simp add: expectedKey_def)
  next
    case False
    then have neq: "\<not> (eclass current = eclass previous \<and> etag current = etag previous)"
      by (auto simp: expectedKey_def)
    from "1.prems"(1)
    have le: "\<forall>k \<in> set (map expectedKey (current # es)). expectedKey previous \<le> k"
      by simp
    from "1.prems"(1) have "expectedKey current \<le> k" if "k \<in> set (map expectedKey es)" for k
      using that by auto
    with le False have "expectedKey previous \<notin> set (map expectedKey (current # es))"
      by (metis antisym list.set_intros(1) list.simps(9) set_ConsD)
    with "1.prems"(2) have nd: "\<not> distinct (map expectedKey (current # es))"
      by simp
    from "1.prems"(1) have srt: "sorted (map expectedKey (current # es))"
      by simp
    from "1.IH" [OF neq srt nd] neq show ?thesis
      by simp
  qed
qed simp_all

lemma distinct_sortExpected:
  "distinct (map expectedKey (sortExpected es)) = distinct (map expectedKey es)"
proof -
  have "mset (map expectedKey (sortExpected es)) = mset (map expectedKey es)"
    by (simp add: sortExpected_def)
  then show ?thesis
    by (metis distinct_count_atmost_1 set_mset_mset)
qed

lemma not_distinct_keys:
  assumes "i < j" "j < length es" "expectedKey (es ! i) = expectedKey (es ! j)"
  shows "\<not> distinct (map expectedKey es)"
  using assms nth_eq_iff_index_eq [of "map expectedKey es" i j] by auto

text \<open>
  Claim C6, as amended. When SET decoding finds two expected elements with the same
  (class, tag) pair, it fails, and the error is a SyntaxError "Duplicated tag".
\<close>

theorem decodeStructAsSet_duplicate:
  assumes "getExpectedFieldElements ctx flds = Inr es"
    and "i < j" and "j < length es"
    and "eclass (es ! i) = eclass (es ! j)" and "etag (es ! i) = etag (es ! j)"
  shows "\<exists>as. decodeStructAsSet X dec ctx data (TStruct flds) v =
           Inl (SyntaxError ''Duplicated tag (%d,%d)'' as)"
proof -
  have "expectedKey (es ! i) = expectedKey (es ! j)"
    using assms(4,5) by (simp add: expectedKey_def)
  with assms(2,3) have "\<not> distinct (map expectedKey es)"
    by (rule not_distinct_keys)
  then have "\<not> distinct (map expectedKey (sortExpected es))"
    by (simp add: distinct_sortExpected)
  moreover have "sorted (map expectedKey (sortExpected es))"
    by (simp add: sortExpected_def)
  ultimately obtain as where
    "checkDuplicated (sortExpected es) = Some (SyntaxError ''Duplicated tag (%d,%d)'' as)"
    using checkDuplicated_sorted by blast
  with assms(1) show ?thesis
    by simp
qed

lemma two_integers_elements:
  "getExpectedFieldElements NewContext [('''', TInt KInt), ('''', TInt KInt)] =
     Inr [\<lparr> eclass = 0, etag = 2, decoder = Some (Primitive DecodeInt),
            fvalue = (0, TInt KInt), fopts = zeroOptions \<rparr>,
          \<lparr> eclass = 0, etag = 2, decoder = Some (Primitive DecodeInt),
            fvalue = (1, TInt KInt), fopts = zeroOptions \<rparr>]"
  by code_simp

text \<open>A struct with two integer fields, decoded as a SET.\<close>

theorem decodeStructAsSet_duplicate_witness:
  "\<exists>as. decodeStructAsSet specCodecs (runDecoder specCodecs NewContext 1) NewContext
           [0x02, 0x01, 0x01, 0x02, 0x01, 0x02]
           (TStruct [('''', TInt KInt), ('''', TInt KInt)]) (VStruct [VInt 0, VInt 0]) =
         Inl (SyntaxError ''Duplicated tag (%d,%d)'' as)"
  using decodeStructAsSet_duplicate [OF two_integers_elements, of 0 1]
  by simp

text \<open>
  The claim as stated fails: the error for the struct with two integer fields is a
  SyntaxError, which is not a ParseError.
\<close>

theorem decodeStructAsSet_duplicate_counterexample:
  "DecodeWithOptions specCodecs 2 [0x31, 0x06, 0x02, 0x01, 0x01, 0x02, 0x01, 0x02]
       (Pointer (TStruct [('''', TInt KInt), ('''', TInt KInt)]) (VStruct [VInt 0, VInt 0]))
       ''set'' =
     Inl (SyntaxError ''Duplicated tag (%d,%d)'' [AUint 0, AUint 2]) \<and>
   \<not> isParseError (SyntaxError ''Duplicated tag (%d,%d)'' [AUint 0, AUint 2])"
  by code_simp

section \<open>Empty content octets\<close>

lemma getRawValuesFromBytes_zero:
  "getRawValuesFromBytes X data 0 = Inl (ParseError ''Too many items for Sequence.'' [])"
  by (simp add: getRawValuesFromBytes_def)

lemma getRawValuesFromBytes_empty:
  "decodeRawValue X [] = Inl e \<Longrightarrow> 0 < n \<Longrightarrow> getRawValuesFromBytes X [] n = Inl e"
  by (cases n) (simp_all add: getRawValuesFromBytes_def)

lemma checkDuplicated_distinct:
  "distinct (map expectedKey xs) \<Longrightarrow> checkDuplicated xs = None"
  by (induction xs rule: checkDuplicated.induct) (auto simp: expectedKey_def)

lemma length_sortExpected: "length (sortExpected es) = length es"
  by (simp add: sortExpected_def)

text \<open>
  A SET looks for duplicated tags among its expected elements before it reads the
  content: with duplicates the read is never reached.
\<close>

lemma decodeStructAsSet_empty_distinct:
  assumes "decodeRawValue X [] = Inl e0"
    and "getExpectedFieldElements ctx flds = Inr es" and "es \<noteq> []"
    and "distinct (map expectedKey es)"
  shows "decodeStructAsSet X dec ctx [] (TStruct flds) v = Inl e0"
proof -
  from assms(4) have "checkDuplicated (sortExpected es) = None"
    by (simp add: checkDuplicated_distinct distinct_sortExpected)
  with assms(1,2,3) show ?thesis
    by (simp add: getRawValuesFromBytes_empty length_sortExpected)
qed

lemma decodeStructAsSet_empty_duplicate:
  assumes "getExpectedFieldElements ctx flds = Inr es"
    and "\<not> distinct (map expectedKey es)"
  shows "\<exists>as. decodeStructAsSet X dec ctx data (TStruct flds) v =
           Inl (SyntaxError ''Duplicated tag (%d,%d)'' as)"
proof -
  from assms(2) have "\<not> distinct (map expectedKey (sortExpected es))"
    by (simp add: distinct_sortExpected)
  moreover have "sorted (map expectedKey (sortExpected es))"
    by (simp add: sortExpected_def)
  ultimately obtain as where
    "checkDuplicated (sortExpected es) = Some (SyntaxError ''Duplicated tag (%d,%d)'' as)"
    using checkDuplicated_sorted by blast
  with assms(1) show ?thesis
    by simp
qed

lemma decodeStruct_empty_content:
  assumes "decodeRawValue X [] = Inl e0"
    and "getExpectedFieldElements ctx flds = Inr es" and "es \<noteq> []"
  shows "decodeStruct X dec ctx [] (TStruct flds) v = Inl e0"
  using assms by (simp add: getRawValuesFromBytes_empty)

lemma decode_no_fields:
  assumes "getExpectedFieldElements ctx flds = Inr []"
  shows "decodeStruct X dec ctx [] (TStruct flds) v =
           Inl (ParseError ''Too many items for Sequence.'' [])"
    and "decodeStructAsSet X dec ctx [] (TStruct flds) v =
           Inl (ParseError ''Too many items for Sequence.'' [])"
  using assms by (simp_all add: getRawValuesFromBytes_zero sortExpected_def)

lemma empty_content_error:
  assumes "decodeRawValue X [] = Inl e0"
  shows "\<exists>err. decodeStruct X dec ctx [] (TStruct flds) v = Inl err"
    and "\<exists>err. decodeStructAsSet X dec ctx [] (TStruct flds) v = Inl err"
proof -
  show "\<exists>err. decodeStruct X dec ctx [] (TStruct flds) v = Inl err"
  proof (cases "getExpectedFieldElements ctx flds")
    case (Inl e)
    then show ?thesis by simp
  next
    case (Inr es)
    with decode_no_fields(1) [of ctx flds X dec v]
      decodeStruct_empty_content [OF assms, of ctx flds es dec v]
    show ?thesis
      by (cases "es = []") blast+
  qed
  show "\<exists>err. decodeStructAsSet X dec ctx [] (TStruct flds) v = Inl err"
  proof (cases "getExpectedFieldElements ctx flds")
    case (Inl e)
    then show ?thesis by simp
  next
    case (Inr es)
    with decode_no_fields(2) [of ctx flds X dec v]
      decodeStructAsSet_empty_distinct [OF assms, of ctx flds es dec v]
      decodeStructAsSet_empty_duplicate [of ctx flds es X dec "[]" v]
    show ?thesis
      by (cases "es = []"; cases "distinct (map expectedKey es)") blast+
  qed
qed

lemma spec_reader_empty: "specDecodeRawValue [] = Inl (ParseError ''truncated input'' [])"
  by (simp add: specDecodeRawValue_def)

text \<open>
  Claim C9, as amended. Decoding a struct, as SEQUENCE or as SET, from empty content
  octets always fails, whatever the options of the fields, whenever reading a raw TLV
  from empty input fails, as it does for the reader of the spec. With no expected
  element the raw-value extraction returns the ParseError "Too many items for
  Sequence." though no bytes remain. With at least one expected element a SEQUENCE
  fails reading a TLV from the empty content, with the error of the reader; so does
  a SET in which no two expected elements have the same (class, tag), and a SET with
  two such elements fails before it reads, with the SyntaxError "Duplicated tag".
\<close>

theorem empty_content_fails:
  "(getExpectedFieldElements ctx flds = Inr [] \<longrightarrow>
      decodeStruct X dec ctx [] (TStruct flds) v =
        Inl (ParseError ''Too many items for Sequence.'' []) \<and>
      decodeStructAsSet X dec ctx [] (TStruct flds) v =
        Inl (ParseError ''Too many items for Sequence.'' [])) \<and>
   (\<forall>e0 es. decodeRawValue X [] = Inl e0 \<and>
        getExpectedFieldElements ctx flds = Inr es \<and> es \<noteq> [] \<longrightarrow>
      decodeStruct X dec ctx [] (TStruct flds) v = Inl e0 \<and>
      (distinct (map expectedKey es) \<longrightarrow>
         decodeStructAsSet X dec ctx [] (TStruct flds) v = Inl e0) \<and>
      (\<not> distinct (map expectedKey es) \<longrightarrow>
         (\<exists>as. decodeStructAsSet X dec ctx [] (TStruct flds) v =
            Inl (SyntaxError ''Duplicated tag (%d,%d)'' as)))) \<and>
   ((\<exists>e0. decodeRawValue X [] = Inl e0) \<longrightarrow>
      (\<exists>err. decodeStruct X dec ctx [] (TStruct flds) v = Inl err) \<and>
      (\<exists>err. decodeStructAsSet X dec ctx [] (TStruct flds) v = Inl err)) \<and>
   (\<exists>err. decodeStruct (X\<lparr>decodeRawValue := specDecodeRawValue\<rparr>) dec ctx []
             (TStruct flds) v = Inl err) \<and>
   (\<exists>err. decodeStructAsSet (X\<lparr>decodeRawValue := specDecodeRawValue\<rparr>) dec ctx []
             (TStruct flds) v = Inl err)"
proof (intro conjI impI allI)
  assume "getExpectedFieldElements ctx flds = Inr []"
  then show "decodeStruct X dec ctx [] (TStruct flds) v =
               Inl (ParseError ''Too many items for Sequence.'' [])"
    and "decodeStructAsSet X dec ctx [] (TStruct flds) v =
               Inl (ParseError ''Too many items for Sequence.'' [])"
    by (rule decode_no_fields)+
next
  fix e0 es
  assume "decodeRawValue X [] = Inl e0 \<and>
    getExpectedFieldElements ctx flds = Inr es \<and> es \<noteq> []"
  then have read: "decodeRawValue X [] = Inl e0"
    and es: "getExpectedFieldElements ctx flds = Inr es" and some: "es \<noteq> []"
    by simp_all
  from read es some show "decodeStruct X dec ctx [] (TStruct flds) v = Inl e0"
    by (rule decodeStruct_empty_content)
  show "decodeStructAsSet X dec ctx [] (TStruct flds) v = Inl e0"
    if "distinct (map expectedKey es)"
    using read es some that by (rule decodeStructAsSet_empty_distinct)
  show "\<exists>as. decodeStructAsSet X dec ctx [] (TStruct flds) v =
          Inl (SyntaxError ''Duplicated tag (%d,%d)'' as)"
    if "\<not> distinct (map expectedKey es)"
    using es that by (rule decodeStructAsSet_empty_duplicate)
next
  assume "\<exists>e0. decodeRawValue X [] = Inl e0"
  then obtain e0 where e0: "decodeRawValue X [] = Inl e0" ..
  from empty_content_error(1) [OF e0]
  show "\<exists>err. decodeStruct X dec ctx [] (TStruct flds) v = Inl err" .
  from empty_content_error(2) [OF e0]
  show "\<exists>err. decodeStructAsSet X dec ctx [] (TStruct flds) v = Inl err" .
next
  have spec: "decodeRawValue (X\<lparr>decodeRawValue := specDecodeRawValue\<rparr>) [] =
    Inl (ParseError ''truncated input'' [])"
    by (simp add: spec_reader_empty)
  from empty_content_error(1) [OF spec]
  show "\<exists>err. decodeStruct (X\<lparr>decodeRawValue := specDecodeRawValue\<rparr>) dec ctx []
          (TStruct flds) v = Inl err" .
  from empty_content_error(2) [OF spec]
  show "\<exists>err. decodeStructAsSet (X\<lparr>decodeRawValue := specDecodeRawValue\<rparr>) dec ctx []
          (TStruct flds) v = Inl err" .
qed

lemma spec_codecs_reader_empty:
  "decodeRawValue specCodecs [] = Inl (ParseError ''truncated input'' [])"
  by (simp add: specCodecs_def spec_reader_empty)

lemma optional_default_elements:
  "getExpectedFieldElements NewContext [(''optional'', TInt KInt), (''default:5'', TString)] =
     Inr [\<lparr> eclass = 0, etag = 2, decoder = Some (Primitive DecodeInt),
            fvalue = (0, TInt KInt), fopts = zeroOptions\<lparr>optional := True\<rparr> \<rparr>,
          \<lparr> eclass = 0, etag = 4, decoder = Some (Primitive DecodeString),
            fvalue = (1, TString), fopts = zeroOptions\<lparr>defaultValue := Some 5\<rparr> \<rparr>]"
  by code_simp

lemma no_fields_elements: "getExpectedFieldElements NewContext [] = Inr []"
  by (simp add: getExpectedFieldElements_def)

text \<open>
  A struct with an optional integer and a string with a default, as SEQUENCE and as
  SET, and a struct with no field, with the reader modelled from the spec.
\<close>

theorem empty_content_fails_witness:
  "decodeStruct specCodecs (runDecoder specCodecs NewContext 1) NewContext []
       (TStruct [(''optional'', TInt KInt), (''default:5'', TString)])
       (VStruct [VInt 0, VBytes []]) =
     Inl (ParseError ''truncated input'' []) \<and>
   decodeStructAsSet specCodecs (runDecoder specCodecs NewContext 1) NewContext []
       (TStruct [(''optional'', TInt KInt), (''default:5'', TString)])
       (VStruct [VInt 0, VBytes []]) =
     Inl (ParseError ''truncated input'' []) \<and>
   decodeStruct specCodecs (runDecoder specCodecs NewContext 1) NewContext []
       (TStruct []) (VStruct []) =
     Inl (ParseError ''Too many items for Sequence.'' [])"
  using empty_content_fails [where X = specCodecs and ctx = NewContext
      and flds = "[(''optional'', TInt KInt), (''default:5'', TString)]"
      and dec = "runDecoder specCodecs NewContext 1" and v = "VStruct [VInt 0, VBytes []]"]
    empty_content_fails [where X = specCodecs and ctx = NewContext and flds = "[]"
      and dec = "runDecoder specCodecs NewContext 1" and v = "VStruct []"]
    spec_codecs_reader_empty optional_default_elements no_fields_elements
  by (simp add: expectedKey_def)

text \<open>
  The claim as stated fails for a SET with two expected elements of the same
  (class, tag): for a struct of two integers decoded as a SET, the bytes \<open>31 00\<close>,
  a SET with empty content, give the SyntaxError for the duplicated tag, which is not
  the error of reading a TLV from the empty content.
\<close>

theorem empty_set_duplicate_counterexample:
  "DecodeWithOptions specCodecs 2 [0x31, 0x00]
       (Pointer (TStruct [('''', TInt KInt), ('''', TInt KInt)]) (VStruct [VInt 0, VInt 0]))
       ''set'' =
     Inl (SyntaxError ''Duplicated tag (%d,%d)'' [AUint 0, AUint 2]) \<and>
   decodeStructAsSet specCodecs (runDecoder specCodecs NewContext 1) NewContext []
       (TStruct [('''', TInt KInt), ('''', TInt KInt)]) (VStruct [VInt 0, VInt 0]) =
     Inl (SyntaxError ''Duplicated tag (%d,%d)'' [AUint 0, AUint 2]) \<and>
   decodeRawValue specCodecs [] = Inl (ParseError ''truncated input'' [])"
  by code_simp

section \<open>The constructed flag\<close>

lemma exceptConstructed_fields:
  assumes "exceptConstructed r' r"
  shows "Class r' = Class r" and "Tag r' = Tag r" and "Indefinite r' = Indefinite r"
    and "Content r' = Content r"
  using assms by (cases r, cases r', simp add: exceptConstructed_def)+

lemma exceptConstructed_rawKey: "exceptConstructed r' r \<Longrightarrow> rawKey r' = rawKey r"
  by (simp add: rawKey_def exceptConstructed_fields(1,2))

lemma getExpectedElement_exceptConstructed:
  assumes "exceptConstructed r' r"
  shows "getExpectedElement ctx r' t opts = getExpectedElement ctx r t opts"
  by (simp add: getExpectedElement_def exceptConstructed_fields(1,2) [OF assms]
      cong: sum.case_cong option.case_cong if_cong)

lemma decode_exceptConstructed:
  assumes "decodeRawValue X' data' = Inr (r', rest)" and "decodeRawValue X data = Inr (r, rest)"
    and "exceptConstructed r' r"
  shows "decode X' dec ctx data' t v opts = decode X dec ctx data t v opts"
  by (simp add: decode_def assms(1,2) getExpectedElement_exceptConstructed [OF assms(3)]
      exceptConstructed_fields [OF assms(3)] cong: sum.case_cong option.case_cong if_cong)

lemma decode_sameReads:
  assumes "sameReads X' X"
  shows "decode X' dec ctx data t v opts = decode X dec ctx data t v opts"
proof -
  from assms have rel:
    "rel_sum (=) (rel_prod exceptConstructed (=)) (decodeRawValue X' data) (decodeRawValue X data)"
    by (simp add: sameReads_def)
  show ?thesis
  proof (cases "decodeRawValue X data")
    case (Inl e)
    with rel have "decodeRawValue X' data = Inl e"
      by (cases "decodeRawValue X' data") simp_all
    with Inl show ?thesis by (simp add: decode_def)
  next
    case (Inr p)
    obtain r rest where p: "p = (r, rest)" by (cases p)
    with rel Inr obtain r' where "decodeRawValue X' data = Inr (r', rest)" "exceptConstructed r' r"
      by (cases "decodeRawValue X' data") auto
    with Inr p show ?thesis
      by (simp add: decode_exceptConstructed)
  qed
qed

lemma rawValuesLoop_sameReads:
  assumes "sameReads X' X"
  shows "list_all2 exceptConstructed acc' acc \<Longrightarrow>
     rel_sum (=) (list_all2 exceptConstructed)
       (rawValuesLoop X' k d acc') (rawValuesLoop X k d acc)"
proof (induction k arbitrary: d acc' acc)
  case 0
  then show ?case by simp
next
  case (Suc k)
  from assms have rel:
    "rel_sum (=) (rel_prod exceptConstructed (=)) (decodeRawValue X' d) (decodeRawValue X d)"
    by (simp add: sameReads_def)
  show ?case
  proof (cases "decodeRawValue X d")
    case (Inl e)
    with rel have "decodeRawValue X' d = Inl e"
      by (cases "decodeRawValue X' d") simp_all
    with Inl show ?thesis by simp
  next
    case (Inr p)
    obtain r rest where p: "p = (r, rest)" by (cases p)
    with rel Inr obtain r' where r': "decodeRawValue X' d = Inr (r', rest)" "exceptConstructed r' r"
      by (cases "decodeRawValue X' d") auto
    with Suc.prems have "list_all2 exceptConstructed (acc' @ [r']) (acc @ [r])"
      by (simp add: list_all2_appendI)
    with Suc.IH [of "acc' @ [r']" "acc @ [r]" rest] Inr p r' show ?thesis
      by simp
  qed
qed

lemma matchLoop_exceptConstructed:
  assumes "list_all2 exceptConstructed rs' rs"
  shows "matchLoop dec es rs' r vs = matchLoop dec es rs r vs"
  using assms
proof (induction dec es rs r vs rule: matchLoop.induct)
  case (1 dec rValues rIndex vs)
  then show ?case by simp
next
  case (2 dec e es rValues rIndex vs)
  have len: "length rs' = length rValues"
    using "2.prems" by (rule list_all2_lengthD)
  show ?case
  proof (cases "decoder e")
    case None
    with "2.IH"(1) "2.prems" show ?thesis by simp
  next
    case (Some d)
    show ?thesis
    proof (cases "rIndex < length rValues")
      case True
      note nth = exceptConstructed_fields [OF list_all2_nthD2 [OF "2.prems" True]]
      show ?thesis
      proof (cases "eclass e = Class (rValues ! rIndex) \<and> etag e = Tag (rValues ! rIndex)")
        case match: True
        with Some True "2.IH"(2) "2.prems" show ?thesis
          by (simp add: len nth split: sum.splits)
      next
        case False
        with Some True "2.IH"(3,4) "2.prems" show ?thesis
          by (auto simp add: len nth split: sum.splits)
      qed
    next
      case False
      with Some "2.IH"(3,4) "2.prems" show ?thesis
        by (auto simp add: len split: sum.splits)
    qed
  qed
qed

lemma insort_exceptConstructed:
  "list_all2 exceptConstructed ys' ys \<Longrightarrow> exceptConstructed x' x \<Longrightarrow>
     list_all2 exceptConstructed (insort_key rawKey x' ys') (insort_key rawKey x ys)"
proof (induction ys' ys rule: list_all2_induct)
  case Nil
  then show ?case by simp
next
  case (Cons y' ys' y ys)
  then show ?case
    by (simp add: exceptConstructed_rawKey)
qed

lemma sortRaw_exceptConstructed:
  "list_all2 exceptConstructed rs' rs \<Longrightarrow> list_all2 exceptConstructed (sortRaw rs') (sortRaw rs)"
  unfolding sortRaw_def
  by (induction rs' rs rule: list_all2_induct) (simp_all add: insort_exceptConstructed)

lemma getRawValuesFromBytes_sameReads:
  assumes "sameReads X' X"
  shows "(\<exists>e. getRawValuesFromBytes X' data n = Inl e \<and> getRawValuesFromBytes X data n = Inl e) \<or>
         (\<exists>rs' rs. getRawValuesFromBytes X' data n = Inr rs' \<and>
            getRawValuesFromBytes X data n = Inr rs \<and> list_all2 exceptConstructed rs' rs)"
proof -
  have "rel_sum (=) (list_all2 exceptConstructed)
      (getRawValuesFromBytes X' data n) (getRawValuesFromBytes X data n)"
    unfolding getRawValuesFromBytes_def
    by (rule rawValuesLoop_sameReads [OF assms]) simp
  then show ?thesis
    by (cases "getRawValuesFromBytes X' data n"; cases "getRawValuesFromBytes X data n") simp_all
qed

lemma decodeStruct_sameReads:
  assumes "sameReads X' X"
  shows "decodeStruct X' dec ctx data t v = decodeStruct X dec ctx data t v"
proof (cases t)
  case (TStruct flds)
  show ?thesis
  proof (cases "getExpectedFieldElements ctx flds")
    case (Inl e)
    with TStruct show ?thesis by simp
  next
    case (Inr es)
    from getRawValuesFromBytes_sameReads [OF assms, of data "length es"]
    show ?thesis
    proof (elim disjE exE conjE)
      fix e
      assume "getRawValuesFromBytes X' data (length es) = Inl e"
        "getRawValuesFromBytes X data (length es) = Inl e"
      with TStruct Inr show ?thesis by simp
    next
      fix rs' rs
      assume r: "getRawValuesFromBytes X' data (length es) = Inr rs'"
        "getRawValuesFromBytes X data (length es) = Inr rs"
        and rel: "list_all2 exceptConstructed rs' rs"
      have "matchExpectedValues dec es rs' (structFields v) =
          matchExpectedValues dec es rs (structFields v)"
        unfolding matchExpectedValues_def by (rule matchLoop_exceptConstructed [OF rel])
      with TStruct Inr r show ?thesis by simp
    qed
  qed
qed simp_all

lemma decodeStructAsSet_sameReads:
  assumes "sameReads X' X"
  shows "decodeStructAsSet X' dec ctx data t v = decodeStructAsSet X dec ctx data t v"
proof (cases t)
  case (TStruct flds)
  show ?thesis
  proof (cases "getExpectedFieldElements ctx flds")
    case (Inl e)
    with TStruct show ?thesis by simp
  next
    case (Inr es)
    from getRawValuesFromBytes_sameReads [OF assms, of data "length (sortExpected es)"]
    show ?thesis
    proof (elim disjE exE conjE)
      fix e
      assume "getRawValuesFromBytes X' data (length (sortExpected es)) = Inl e"
        "getRawValuesFromBytes X data (length (sortExpected es)) = Inl e"
      with TStruct Inr show ?thesis by (simp add: Let_def split: option.splits)
    next
      fix rs' rs
      assume r: "getRawValuesFromBytes X' data (length (sortExpected es)) = Inr rs'"
        "getRawValuesFromBytes X data (length (sortExpected es)) = Inr rs"
        and rel: "list_all2 exceptConstructed rs' rs"
      have "matchExpectedValues dec (sortExpected es) rs' (structFields v) =
          matchExpectedValues dec (sortExpected es) rs (structFields v)"
        unfolding matchExpectedValues_def by (rule matchLoop_exceptConstructed [OF rel])
      moreover have "matchExpectedValues dec (sortExpected es) (sortRaw rs') (structFields v) =
          matchExpectedValues dec (sortExpected es) (sortRaw rs) (structFields v)"
        unfolding matchExpectedValues_def
        by (rule matchLoop_exceptConstructed [OF sortRaw_exceptConstructed [OF rel]])
      ultimately show ?thesis
        using TStruct Inr r by (simp add: Let_def split: option.splits)
    qed
  qed
qed simp_all

lemma Context_DecodeWithOptions_sameReads:
  assumes "sameReads X' X"
  shows "Context_DecodeWithOptions X' dec ctx data obj options =
         Context_DecodeWithOptions X dec ctx data obj options"
  by (simp add: Context_DecodeWithOptions_def decode_sameReads [OF assms]
      cong: sum.case_cong target.case_cong)

lemma decodeSlice_sameReads:
  assumes "sameReads X' X"
  shows "decodeSlice X' dec ctx fuel data t = decodeSlice X dec ctx fuel data t"
  by (cases t) (simp_all add: Context_DecodeWithOptions_sameReads [OF assms])

lemma decodeArray_sameReads:
  assumes "sameReads X' X"
  shows "decodeArray X' dec ctx data t = decodeArray X dec ctx data t"
  by (cases t) (simp_all add: Context_DecodeWithOptions_sameReads [OF assms])

lemma runDecoder_sameReads:
  assumes "primitive X' = primitive X" and "sameReads X' X"
  shows "runDecoder X' ctx n d data t v = runDecoder X ctx n d data t v"
proof (induction n arbitrary: d data t v)
  case 0
  show ?case by simp
next
  case (Suc n)
  then have IH: "runDecoder X' ctx n = runDecoder X ctx n"
    by (intro ext)
  show ?case
    by (cases d)
      (simp_all add: IH assms(1) decodeStruct_sameReads [OF assms(2)]
        decodeStructAsSet_sameReads [OF assms(2)] decodeSlice_sameReads [OF assms(2)]
        decodeArray_sameReads [OF assms(2)] decode_sameReads [OF assms(2)])
qed

lemma sameReads_flipConstructed: "sameReads (flipConstructed X) X"
  by (auto simp: sameReads_def flipConstructed_def exceptConstructed_def split: sum.splits)

text \<open>
  Claim C8. The decoder never inspects the constructed flag of a raw TLV. Two inputs
  whose raw TLVs are identical except for the constructed flag give the same outcome
  of \<open>decode\<close>, the same value or the same error; and with a reader that reports
  other constructed flags and nothing else different, at any depth of nesting, every
  decoder and \<open>DecodeWithOptions\<close> give the same outcome.
\<close>

theorem constructed_flag_ignored:
  "(decodeRawValue X data = Inr (raw, rest) \<and>
    decodeRawValue X data' = Inr (raw\<lparr>Constructed := c\<rparr>, rest) \<longrightarrow>
      decode X dec ctx data' t v opts = decode X dec ctx data t v opts) \<and>
   (primitive X' = primitive X \<and> sameReads X' X \<longrightarrow>
      runDecoder X' ctx n d data t v = runDecoder X ctx n d data t v \<and>
      Context_DecodeWithOptions X' (runDecoder X' ctx n) ctx data obj options =
        Context_DecodeWithOptions X (runDecoder X ctx n) ctx data obj options)"
proof -
  have "decode X dec ctx data' t v opts = decode X dec ctx data t v opts"
    if "decodeRawValue X data = Inr (raw, rest)"
      "decodeRawValue X data' = Inr (raw\<lparr>Constructed := c\<rparr>, rest)"
    using decode_exceptConstructed [OF that(2) that(1)]
    by (simp add: exceptConstructed_def)
  moreover have "runDecoder X' ctx n = runDecoder X ctx n"
    if "primitive X' = primitive X" "sameReads X' X"
    using runDecoder_sameReads [OF that] by (intro ext)
  ultimately show ?thesis
    by (auto simp: Context_DecodeWithOptions_sameReads)
qed

lemma read_integer: "decodeRawValue specCodecs [0x02, 0x01, 0x07] =
    Inr (\<lparr> Class = 0, Tag = 2, Constructed = False, Indefinite = False, Content = [0x07] \<rparr>, [])"
  by code_simp

lemma read_constructed_integer: "decodeRawValue specCodecs [0x22, 0x01, 0x07] =
    Inr (\<lparr> Class = 0, Tag = 2, Constructed = True, Indefinite = False, Content = [0x07] \<rparr>, [])"
  by code_simp

lemma decode_integer: "decode specCodecs (runDecoder specCodecs NewContext 1) NewContext
      [0x02, 0x01, 0x07] (TInt KInt) (VInt 0) zeroOptions = Inr (VInt 7, [])"
  by code_simp

text \<open>
  The INTEGER 7 with the constructed bit of the identifier octet clear (\<open>02\<close>) and
  set (\<open>22\<close>), and a struct read with the constructed flags of all TLVs inverted.
\<close>

theorem constructed_flag_ignored_witness:
  "decode specCodecs (runDecoder specCodecs NewContext 1) NewContext
      [0x22, 0x01, 0x07] (TInt KInt) (VInt 0) zeroOptions = Inr (VInt 7, []) \<and>
   decode specCodecs (runDecoder specCodecs NewContext 1) NewContext
      [0x02, 0x01, 0x07] (TInt KInt) (VInt 0) zeroOptions = Inr (VInt 7, []) \<and>
   runDecoder (flipConstructed specCodecs) NewContext 3 DecodeStruct [0x02, 0x01, 0x07]
      (TStruct [('''', TInt KInt)]) (VStruct [VInt 0]) =
     runDecoder specCodecs NewContext 3 DecodeStruct [0x02, 0x01, 0x07]
      (TStruct [('''', TInt KInt)]) (VStruct [VInt 0])"
proof -
  have "decode specCodecs (runDecoder specCodecs NewContext 1) NewContext
      [0x22, 0x01, 0x07] (TInt KInt) (VInt 0) zeroOptions =
    decode specCodecs (runDecoder specCodecs NewContext 1) NewContext
      [0x02, 0x01, 0x07] (TInt KInt) (VInt 0) zeroOptions"
    using constructed_flag_ignored [where X = specCodecs and data = "[0x02, 0x01, 0x07]"
        and raw = "\<lparr> Class = 0, Tag = 2, Constructed = False, Indefinite = False,
          Content = [0x07] \<rparr>"
        and rest = "[]" and data' = "[0x22, 0x01, 0x07]" and c = True
        and dec = "runDecoder specCodecs NewContext 1" and ctx = NewContext
        and t = "TInt KInt" and v = "VInt 0" and opts = zeroOptions]
      read_integer read_constructed_integer
    by simp
  moreover have "runDecoder (flipConstructed specCodecs) NewContext 3 DecodeStruct
      [0x02, 0x01, 0x07] (TStruct [('''', TInt KInt)]) (VStruct [VInt 0]) =
    runDecoder specCodecs NewContext 3 DecodeStruct [0x02, 0x01, 0x07]
      (TStruct [('''', TInt KInt)]) (VStruct [VInt 0])"
    using constructed_flag_ignored [where X' = "flipConstructed specCodecs" and X = specCodecs
        and ctx = NewContext and n = 3 and d = DecodeStruct and data = "[0x02, 0x01, 0x07]"
        and t = "TStruct [('''', TInt KInt)]" and v = "VStruct [VInt 0]"]
      sameReads_flipConstructed [of specCodecs]
    by (simp add: flipConstructed_def)
  ultimately show ?thesis
    using decode_integer by simp
qed

section \<open>The default context\<close>

lemma der_NewContext: "encoding (der NewContext)" "\<not> decoding (der NewContext)"
  by (simp_all add: NewContext_def SetDer_def)

lemma decode_indefinite_BER:
  assumes "\<not> decoding (der ctx)"
    and "decodeRawValue X data = Inr (raw, rest)"
    and "decodeRawValue X data' = Inr (raw\<lparr>Indefinite := False\<rparr>, rest)"
  shows "decode X dec ctx data t v opts = decode X dec ctx data' t v opts"
proof -
  have "getExpectedElement ctx (raw\<lparr>Indefinite := False\<rparr>) t opts = getExpectedElement ctx raw t opts"
    by (simp add: getExpectedElement_def cong: sum.case_cong option.case_cong if_cong)
  with assms show ?thesis
    by (simp add: decode_def cong: sum.case_cong option.case_cong if_cong)
qed

lemma decode_indefinite_DER:
  assumes "decoding (der ctx)" and "decodeRawValue X data = Inr (raw, rest)" and "Indefinite raw"
  shows "decode X dec ctx data t v opts =
    Inl (ParseError ''Indefinite length form is not supported by DER mode'' [])"
  using assms by (simp add: decode_def)

text \<open>
  Claim C10. A context freshly created by \<open>NewContext\<close> has DER mode enabled for
  encoding and disabled for decoding. The package functions \<open>Decode\<close>,
  \<open>DecodeWithOptions\<close>, \<open>Encode\<close> and \<open>EncodeWithOptions\<close> each work with such a
  context. Decoding with it accepts the indefinite length form: a TLV read in this form
  is decoded as the same TLV read in a definite form is; once \<open>SetDer\<close> has enabled
  DER for decoding, the TLV in the indefinite form is rejected with a ParseError. And
  decoding a SET with it sorts the raw values, so that it accepts them in any order.
\<close>

theorem NewContext_decodes_BER:
  "encoding (der NewContext) \<and> \<not> decoding (der NewContext) \<and>
   Decode X fuel data obj =
     Context_Decode X (runDecoder X NewContext fuel) NewContext data obj \<and>
   DecodeWithOptions X fuel data obj options =
     Context_DecodeWithOptions X (runDecoder X NewContext fuel) NewContext data obj options \<and>
   Encode enc x = enc NewContext x '''' \<and>
   EncodeWithOptions enc x options = enc NewContext x options \<and>
   (decodeRawValue X data = Inr (raw, rest) \<and>
    decodeRawValue X data' = Inr (raw\<lparr>Indefinite := False\<rparr>, rest) \<longrightarrow>
      decode X dec NewContext data t v opts = decode X dec NewContext data' t v opts) \<and>
   (decodeRawValue X data = Inr (raw, rest) \<and> Indefinite raw \<longrightarrow>
      decode X dec (SetDer NewContext e True) data t v opts =
        Inl (ParseError ''Indefinite length form is not supported by DER mode'' [])) \<and>
   (getExpectedFieldElements NewContext flds = Inr es \<and>
    checkDuplicated (sortExpected es) = None \<and>
    getRawValuesFromBytes X data (length es) = Inr raws \<longrightarrow>
      decodeStructAsSet X dec NewContext data (TStruct flds) v =
        structResult
          (matchExpectedValues dec (sortExpected es) (sortRaw raws) (structFields v)))"
  using decode_indefinite_BER [OF der_NewContext(2), of X data raw rest data' dec t v opts]
    decode_indefinite_DER [of "SetDer NewContext e True" X data raw rest dec t v opts]
  by (simp add: der_NewContext Decode_def DecodeWithOptions_def Context_Decode_def
      Encode_def EncodeWithOptions_def SetDer_def sortExpected_def)

lemma read_indefinite:
  "decodeRawValue specCodecs [0x30, 0x80, 0x02, 0x01, 0x07, 0x00, 0x00] =
     Inr (\<lparr> Class = 0, Tag = 16, Constructed = True, Indefinite = True,
            Content = [0x02, 0x01, 0x07] \<rparr>, [])"
  by code_simp

lemma read_definite:
  "decodeRawValue specCodecs [0x30, 0x03, 0x02, 0x01, 0x07] =
     Inr (\<lparr> Class = 0, Tag = 16, Constructed = True, Indefinite = False,
            Content = [0x02, 0x01, 0x07] \<rparr>, [])"
  by code_simp

lemma Decode_definite:
  "Decode specCodecs 2 [0x30, 0x03, 0x02, 0x01, 0x07]
       (Pointer (TStruct [('''', TInt KInt)]) (VStruct [VInt 0])) =
     Inr (VStruct [VInt 7], [])"
  by code_simp

text \<open>
  The SEQUENCE of the INTEGER 7 in the indefinite form, \<open>30 80 02 01 07 00 00\<close>,
  with the reader modelled from the spec.
\<close>

theorem NewContext_decodes_BER_witness:
  "Decode specCodecs 2 [0x30, 0x80, 0x02, 0x01, 0x07, 0x00, 0x00]
       (Pointer (TStruct [('''', TInt KInt)]) (VStruct [VInt 0])) =
     Inr (VStruct [VInt 7], []) \<and>
   decode specCodecs (runDecoder specCodecs NewContext 2) (SetDer NewContext True True)
       [0x30, 0x80, 0x02, 0x01, 0x07, 0x00, 0x00]
       (TStruct [('''', TInt KInt)]) (VStruct [VInt 0]) zeroOptions =
     Inl (ParseError ''Indefinite length form is not supported by DER mode'' [])"
proof -
  note T = NewContext_decodes_BER [where X = specCodecs
      and data = "[0x30, 0x80, 0x02, 0x01, 0x07, 0x00, 0x00]"
      and data' = "[0x30, 0x03, 0x02, 0x01, 0x07]"
      and raw = "\<lparr> Class = 0, Tag = 16, Constructed = True, Indefinite = True,
        Content = [0x02, 0x01, 0x07] \<rparr>"
      and rest = "[]" and dec = "runDecoder specCodecs NewContext 2"
      and t = "TStruct [('''', TInt KInt)]" and v = "VStruct [VInt 0]" and opts = zeroOptions
      and e = True and fuel = 2 and options = "[]" and flds = "[]" and es = "[]"
      and raws = "[]"
      and obj = "Pointer (TStruct [([], TInt KInt)]) (VStruct [VInt 0])"
      and enc = "\<lambda>(c :: Context) (b :: bool) (s :: string). b" and x = True]
  have opts: "parseOptions '''' = Inr zeroOptions"
    by code_simp
  from T read_indefinite read_definite
  have "decode specCodecs (runDecoder specCodecs NewContext 2) NewContext
      [0x30, 0x80, 0x02, 0x01, 0x07, 0x00, 0x00]
      (TStruct [('''', TInt KInt)]) (VStruct [VInt 0]) zeroOptions =
    decode specCodecs (runDecoder specCodecs NewContext 2) NewContext
      [0x30, 0x03, 0x02, 0x01, 0x07]
      (TStruct [('''', TInt KInt)]) (VStruct [VInt 0]) zeroOptions"
    by simp
  with Decode_definite have "Decode specCodecs 2 [0x30, 0x80, 0x02, 0x01, 0x07, 0x00, 0x00]
       (Pointer (TStruct [('''', TInt KInt)]) (VStruct [VInt 0])) =
     Inr (VStruct [VInt 7], [])"
    by (simp add: Decode_def Context_DecodeWithOptions_def opts)
  moreover from T read_indefinite
  have "decode specCodecs (runDecoder specCodecs NewContext 2) (SetDer NewContext True True)
       [0x30, 0x80, 0x02, 0x01, 0x07, 0x00, 0x00]
       (TStruct [('''', TInt KInt)]) (VStruct [VInt 0]) zeroOptions =
     Inl (ParseError ''Indefinite length form is not supported by DER mode'' [])"
    by simp
  ultimately show ?thesis
    by simp
qed
section \<open>Matching expected elements and raw values\<close>

lemma inval_fields:
  "eclass (inval G e) = eclass e" "etag (inval G e) = etag e" "fvalue (inval G e) = fvalue e"
  "fopts (inval G e) = fopts e"
  by (simp_all add: inval_def)

lemma decoder_inval: "(decoder (inval G e) = None) = (decoder e = None \<or> namedIn G e)"
  by (simp add: inval_def)

lemma invalidate_inval:
  "invalidate name (inval G e) = inval (name # G) e"
  by (cases e) (auto simp: invalidate_def inval_def namedIn_def split: option.splits)

lemma removeOtherOptions_inval:
  "removeOtherOptions e (map (inval G) es) =
     map (inval (case choice (fopts e) of None \<Rightarrow> G | Some name \<Rightarrow> name # G)) es"
  by (simp add: removeOtherOptions_def invalidate_inval split: option.splits)

lemma setDefaultValue_assignDefault:
  "defaultValue opts = Some d \<Longrightarrow> setDefaultValue t opts = assignDefault t d"
  by (cases t) simp_all

lemma oneFieldPerChoice_Cons: "oneFieldPerChoice (e # es) \<Longrightarrow> oneFieldPerChoice es"
  by (simp add: oneFieldPerChoice_def)

text \<open>
  The invariant of the matching: the elements that belong to a choice group of which
  an element has been matched are the elements of the fields in \<open>F\<close>.
\<close>

lemma siblings_named:
  assumes one: "oneFieldPerChoice (e # es)"
    and inv: "\<forall>e' \<in> set es. namedIn G e' = (fst (fvalue e') \<in> set F)"
  shows "\<forall>e' \<in> set es.
           namedIn (case choice (fopts e) of None \<Rightarrow> G | Some name \<Rightarrow> name # G) e' =
             (fst (fvalue e') \<in> set (invalidateSiblings e F))"
proof (cases "choice (fopts e)")
  case None
  with inv show ?thesis
    by (simp add: invalidateSiblings_def)
next
  case (Some name)
  show ?thesis
  proof
    fix e'
    assume e': "e' \<in> set es"
    with one Some have "(choice (fopts e') = Some name) = (fst (fvalue e') = fst (fvalue e))"
      by (simp add: oneFieldPerChoice_def)
    moreover from inv e' have "namedIn G e' = (fst (fvalue e') \<in> set F)"
      by simp
    ultimately show
      "namedIn (case choice (fopts e) of None \<Rightarrow> G | Some name \<Rightarrow> name # G) e' =
         (fst (fvalue e') \<in> set (invalidateSiblings e F))"
      using Some by (auto simp: namedIn_def invalidateSiblings_def split: option.splits)
  qed
qed

lemma matchLoop_specMatching:
  assumes "oneFieldPerChoice es"
    and "\<forall>e \<in> set es. namedIn G e = (fst (fvalue e) \<in> set F)"
  shows "matchLoop dec (map (inval G) es) raws i vs = specMatching dec es raws i F vs"
  using assms
proof (induction es arbitrary: i G F vs)
  case Nil
  show ?case by simp
next
  case (Cons e es)
  from Cons.prems(1) have one: "oneFieldPerChoice es"
    by (rule oneFieldPerChoice_Cons)
  from Cons.prems(2) have inv: "\<forall>e' \<in> set es. namedIn G e' = (fst (fvalue e') \<in> set F)"
    and head: "namedIn G e = (fst (fvalue e) \<in> set F)"
    by simp_all
  note skip = Cons.IH [OF one inv]
  show ?case
  proof (cases "invalidated F e")
    case True
    with head have "decoder (inval G e) = None"
      by (simp add: decoder_inval invalidated_def)
    with True skip show ?thesis
      by simp
  next
    case False
    with head obtain d where d: "decoder e = Some d" and same: "inval G e = e"
      by (auto simp: invalidated_def inval_def)
    show ?thesis
    proof (cases "i < length raws \<and> eclass e = Class (raws ! i) \<and> etag e = Tag (raws ! i)")
      case True
      note step = Cons.IH [OF one siblings_named [OF Cons.prems(1) inv]]
      from True False d same step show ?thesis
        by (simp add: removeOtherOptions_inval split: sum.splits)
    next
      case miss: False
      show ?thesis
      proof (cases "defaultValue (fopts e)")
        case None
        with False d same miss skip show ?thesis
          by auto
      next
        case (Some dv)
        with False d same miss skip setDefaultValue_assignDefault [OF Some, of "snd (fvalue e)"]
        show ?thesis
          by (auto split: sum.splits)
      qed
    qed
  qed
qed

lemma inval_Nil: "map (inval []) es = es"
  by (induction es) (simp_all add: inval_def namedIn_def split: option.splits)

lemma matchExpectedValues_one:
  assumes "oneFieldPerChoice es"
  shows "matchExpectedValues dec es raws vs = specMatching dec es raws 0 [] vs"
proof -
  have "\<forall>e \<in> set es. namedIn [] e = (fst (fvalue e) \<in> set [])"
    by (simp add: namedIn_def split: option.splits)
  from matchLoop_specMatching [OF assms this, of dec raws 0 vs] show ?thesis
    by (simp add: matchExpectedValues_def inval_Nil)
qed

text \<open>
  The expected elements of a struct in which no two fields name the same choice: the
  elements of a field have the field as target and the options of the field, so
  every choice group belongs to one field.
\<close>

lemma expandChoices_fields:
  "expandChoices ctx field opts entries = Inr es \<Longrightarrow> e \<in> set es \<Longrightarrow>
     fvalue e = field \<and> fopts e = opts"
  by (induction entries arbitrary: es) (auto split: sum.splits)

lemma fieldElements_fields:
  assumes "fieldElements ctx field structTag = Inr es" and "e \<in> set es"
  shows "fvalue e = field \<and> choice (fopts e) = choiceOf structTag"
  using assms expandChoices_fields [of ctx field _ _ es e]
  by (auto simp: fieldElements_def choiceOf_def split: sum.splits option.splits)

lemma fieldLoop_groups:
  assumes "fieldLoop ctx i flds = Inr es" and "distinctChoices flds"
  shows "oneFieldPerChoice es \<and>
         (\<forall>e \<in> set es. i \<le> fst (fvalue e) \<and>
            (choice (fopts e) \<noteq> None \<longrightarrow>
               choice (fopts e) \<in> set (map (\<lambda>f. choiceOf (fst f)) flds)))"
  using assms
proof (induction flds arbitrary: i es)
  case Nil
  then show ?case
    by (simp add: oneFieldPerChoice_def)
next
  case (Cons f fs)
  from Cons.prems(1) obtain es1 es2 where
    es1: "fieldElements ctx (i, snd f) (fst f) = Inr es1" and
    es2: "fieldLoop ctx (Suc i) fs = Inr es2" and es: "es = es1 @ es2"
    by (auto split: sum.splits)
  from Cons.prems(2) have dist: "distinctChoices fs"
    and fresh: "choiceOf (fst f) \<noteq> None \<Longrightarrow>
                  choiceOf (fst f) \<notin> set (map (\<lambda>f. choiceOf (fst f)) fs)"
    by (auto simp: distinctChoices_def split: if_splits)
  from Cons.IH [OF es2 dist] have one2: "oneFieldPerChoice es2"
    and two: "\<And>e. e \<in> set es2 \<Longrightarrow> Suc i \<le> fst (fvalue e)"
    and named: "\<And>e. e \<in> set es2 \<Longrightarrow> choice (fopts e) \<noteq> None \<Longrightarrow>
                  choice (fopts e) \<in> set (map (\<lambda>f. choiceOf (fst f)) fs)"
    by auto
  have first: "fvalue e = (i, snd f) \<and> choice (fopts e) = choiceOf (fst f)" if "e \<in> set es1" for e
    using fieldElements_fields [OF es1 that] .
  have "(choice (fopts e') = choice (fopts e)) = (fst (fvalue e') = fst (fvalue e))"
    if "e \<in> set es" "e' \<in> set es" "choice (fopts e) \<noteq> None" for e e'
  proof (cases "e \<in> set es1")
    case e1: True
    show ?thesis
    proof (cases "e' \<in> set es1")
      case True
      with e1 first [of e] first [of e'] show ?thesis
        by simp
    next
      case False
      with that es have e2': "e' \<in> set es2"
        by simp
      from e1 that(3) first [of e] fresh
      have "choice (fopts e) \<notin> set (map (\<lambda>f. choiceOf (fst f)) fs)"
        by simp
      with named [OF e2'] that(3) have "choice (fopts e') \<noteq> choice (fopts e)"
        by auto
      moreover from two [OF e2'] first [OF e1] have "fst (fvalue e') \<noteq> fst (fvalue e)"
        by simp
      ultimately show ?thesis
        by simp
    qed
  next
    case False
    with that es have e2: "e \<in> set es2"
      by simp
    show ?thesis
    proof (cases "e' \<in> set es1")
      case True
      have "choiceOf (fst f) \<noteq> choice (fopts e)"
      proof
        assume eq: "choiceOf (fst f) = choice (fopts e)"
        with that(3) have "choiceOf (fst f) \<noteq> None"
          by simp
        from fresh [OF this] named [OF e2 that(3)] eq show False
          by simp
      qed
      with first [OF True] have "choice (fopts e') \<noteq> choice (fopts e)"
        by simp
      moreover from two [OF e2] first [OF True] have "fst (fvalue e') \<noteq> fst (fvalue e)"
        by simp
      ultimately show ?thesis
        by simp
    next
      case False
      with that es have "e' \<in> set es2"
        by simp
      with one2 e2 that(3) show ?thesis
        by (simp add: oneFieldPerChoice_def)
    qed
  qed
  then have "oneFieldPerChoice es"
    by (simp add: oneFieldPerChoice_def)
  moreover have "i \<le> fst (fvalue e) \<and>
      (choice (fopts e) \<noteq> None \<longrightarrow>
         choice (fopts e) \<in> set (map (\<lambda>f. choiceOf (fst f)) (f # fs)))"
    if "e \<in> set es" for e
  proof (cases "e \<in> set es1")
    case True
    with first [of e] show ?thesis
      by simp
  next
    case False
    with that es have "e \<in> set es2"
      by simp
    with two [of e] named [of e] show ?thesis
      by auto
  qed
  ultimately show ?case
    by simp
qed

lemma getExpectedFieldElements_one:
  "getExpectedFieldElements ctx flds = Inr es \<Longrightarrow> distinctChoices flds \<Longrightarrow> oneFieldPerChoice es"
  using fieldLoop_groups [of ctx 0 flds es] by (simp add: getExpectedFieldElements_def)

text \<open>
  Claim C1, as amended. For a struct in which no two fields name the same choice,
  \<open>matchExpectedValues\<close>, and with it \<open>decodeStruct\<close>, is the matching in the words
  of the spec. The expected elements are scanned in declaration order with a single
  advancing raw index. For every expected element that has not been invalidated and
  whose (class, tag) equals the (class, tag) of the current raw TLV, the codec is
  invoked and the raw index advances, and the other siblings of its choice group, if
  any, are invalidated: the elements expanded from the same field. For every other
  such element: it is skipped if it is marked optional or is part of a choice group;
  else, if a default is set, a field of an integer kind is assigned the default, and
  for a field of another kind decoding fails with a SyntaxError; otherwise decoding
  fails with the ParseError that names the missing (class, tag).
\<close>

theorem matchExpectedValues_specMatching:
  "(oneFieldPerChoice es \<longrightarrow>
      matchExpectedValues dec es raws vs = specMatching dec es raws 0 [] vs) \<and>
   (distinctChoices flds \<longrightarrow>
      decodeStruct X dec ctx data (TStruct flds) v =
        (case getExpectedFieldElements ctx flds of
           Inl err \<Rightarrow> Inl err
         | Inr es' \<Rightarrow>
             (case getRawValuesFromBytes X data (length es') of
                Inl err \<Rightarrow> Inl err
              | Inr raws' \<Rightarrow> structResult (specMatching dec es' raws' 0 [] (structFields v)))))"
proof (intro conjI impI)
  assume "oneFieldPerChoice es"
  then show "matchExpectedValues dec es raws vs = specMatching dec es raws 0 [] vs"
    by (rule matchExpectedValues_one)
next
  assume "distinctChoices flds"
  then show "decodeStruct X dec ctx data (TStruct flds) v =
        (case getExpectedFieldElements ctx flds of
           Inl err \<Rightarrow> Inl err
         | Inr es' \<Rightarrow>
             (case getRawValuesFromBytes X data (length es') of
                Inl err \<Rightarrow> Inl err
              | Inr raws' \<Rightarrow> structResult (specMatching dec es' raws' 0 [] (structFields v))))"
    by (simp add: matchExpectedValues_one getExpectedFieldElements_one split: sum.splits)
qed

lemma match_example:
  "matchExpectedValues (runDecoder specCodecs NewContext 1)
     [\<lparr> eclass = 0, etag = 2, decoder = Some (Primitive DecodeInt),
        fvalue = (0, TInt KInt), fopts = zeroOptions \<rparr>,
      \<lparr> eclass = 0, etag = 2, decoder = Some (Primitive DecodeInt),
        fvalue = (1, TInt KInt), fopts = zeroOptions\<lparr>optional := True\<rparr> \<rparr>,
      \<lparr> eclass = 0, etag = 2, decoder = Some (Primitive DecodeInt),
        fvalue = (2, TInt KInt8), fopts = zeroOptions\<lparr>defaultValue := Some 5\<rparr> \<rparr>]
     [\<lparr> Class = 0, Tag = 2, Constructed = False, Indefinite = False, Content = [0x07] \<rparr>]
     [VInt 0, VInt 0, VInt 0] =
   Inr [VInt 7, VInt 0, VInt 5]"
  by code_simp

lemma choice_example:
  "decodeStruct specCodecs
     (runDecoder specCodecs
        (snd (AddChoice NewContext ''X'' [(TInt KInt, ''''), (TString, ''tag:0'')])) 2)
     (snd (AddChoice NewContext ''X'' [(TInt KInt, ''''), (TString, ''tag:0'')]))
     [0x80, 0x03, 0x66, 0x6F, 0x6F, 0x02, 0x01, 0x2A]
     (TStruct [(''choice:X'', TInterface), ('''', TInt KInt)]) (VStruct [VInterface None, VInt 0]) =
   Inr (VStruct [VInterface (Some (TString, VBytes [0x66, 0x6F, 0x6F])), VInt 42])"
  by code_simp

lemma match_example_groups:
  "oneFieldPerChoice
     [\<lparr> eclass = 0, etag = 2, decoder = Some (Primitive DecodeInt),
        fvalue = (0, TInt KInt), fopts = zeroOptions \<rparr>,
      \<lparr> eclass = 0, etag = 2, decoder = Some (Primitive DecodeInt),
        fvalue = (1, TInt KInt), fopts = zeroOptions\<lparr>optional := True\<rparr> \<rparr>,
      \<lparr> eclass = 0, etag = 2, decoder = Some (Primitive DecodeInt),
        fvalue = (2, TInt KInt8), fopts = zeroOptions\<lparr>defaultValue := Some 5\<rparr> \<rparr>]"
  by code_simp

lemma choice_example_groups:
  "distinctChoices [(''choice:X'', TInterface), ('''', TInt KInt)]"
  by code_simp

text \<open>
  An integer, an optional integer and an integer with the default 5 matched against the
  single raw INTEGER 7; and a struct with a choice field and an integer field.
\<close>

theorem matchExpectedValues_specMatching_witness:
  "oneFieldPerChoice
     [\<lparr> eclass = 0, etag = 2, decoder = Some (Primitive DecodeInt),
        fvalue = (0, TInt KInt), fopts = zeroOptions \<rparr>,
      \<lparr> eclass = 0, etag = 2, decoder = Some (Primitive DecodeInt),
        fvalue = (1, TInt KInt), fopts = zeroOptions\<lparr>optional := True\<rparr> \<rparr>,
      \<lparr> eclass = 0, etag = 2, decoder = Some (Primitive DecodeInt),
        fvalue = (2, TInt KInt8), fopts = zeroOptions\<lparr>defaultValue := Some 5\<rparr> \<rparr>] \<and>
   specMatching (runDecoder specCodecs NewContext 1)
     [\<lparr> eclass = 0, etag = 2, decoder = Some (Primitive DecodeInt),
        fvalue = (0, TInt KInt), fopts = zeroOptions \<rparr>,
      \<lparr> eclass = 0, etag = 2, decoder = Some (Primitive DecodeInt),
        fvalue = (1, TInt KInt), fopts = zeroOptions\<lparr>optional := True\<rparr> \<rparr>,
      \<lparr> eclass = 0, etag = 2, decoder = Some (Primitive DecodeInt),
        fvalue = (2, TInt KInt8), fopts = zeroOptions\<lparr>defaultValue := Some 5\<rparr> \<rparr>]
     [\<lparr> Class = 0, Tag = 2, Constructed = False, Indefinite = False, Content = [0x07] \<rparr>]
     0 [] [VInt 0, VInt 0, VInt 0] =
   Inr [VInt 7, VInt 0, VInt 5] \<and>
   distinctChoices [(''choice:X'', TInterface), ('''', TInt KInt)] \<and>
   (case getExpectedFieldElements
           (snd (AddChoice NewContext ''X'' [(TInt KInt, ''''), (TString, ''tag:0'')]))
           [(''choice:X'', TInterface), ('''', TInt KInt)] of
      Inl err \<Rightarrow> Inl err
    | Inr es' \<Rightarrow>
        (case getRawValuesFromBytes specCodecs
                [0x80, 0x03, 0x66, 0x6F, 0x6F, 0x02, 0x01, 0x2A] (length es') of
           Inl err \<Rightarrow> Inl err
         | Inr raws' \<Rightarrow>
             structResult
               (specMatching
                  (runDecoder specCodecs
                     (snd (AddChoice NewContext ''X'' [(TInt KInt, ''''), (TString, ''tag:0'')])) 2)
                  es' raws' 0 [] (structFields (VStruct [VInterface None, VInt 0]))))) =
   Inr (VStruct [VInterface (Some (TString, VBytes [0x66, 0x6F, 0x6F])), VInt 42])"
  using matchExpectedValues_specMatching [where dec = "runDecoder specCodecs NewContext 1"
      and es = "[\<lparr> eclass = 0, etag = 2, decoder = Some (Primitive DecodeInt),
          fvalue = (0, TInt KInt), fopts = zeroOptions \<rparr>,
        \<lparr> eclass = 0, etag = 2, decoder = Some (Primitive DecodeInt),
          fvalue = (1, TInt KInt), fopts = zeroOptions\<lparr>optional := True\<rparr> \<rparr>,
        \<lparr> eclass = 0, etag = 2, decoder = Some (Primitive DecodeInt),
          fvalue = (2, TInt KInt8), fopts = zeroOptions\<lparr>defaultValue := Some 5\<rparr> \<rparr>]"
      and raws = "[\<lparr> Class = 0, Tag = 2, Constructed = False, Indefinite = False,
          Content = [0x07] \<rparr>]"
      and vs = "[VInt 0, VInt 0, VInt 0]"
      and X = specCodecs and ctx = NewContext and data = "[]" and flds = "[]" and v = VNull]
    matchExpectedValues_specMatching [where dec = "runDecoder specCodecs
          (snd (AddChoice NewContext ''X'' [(TInt KInt, ''''), (TString, ''tag:0'')])) 2"
      and es = "[]" and raws = "[]" and vs = "[]"
      and X = specCodecs
      and ctx = "snd (AddChoice NewContext ''X'' [(TInt KInt, ''''), (TString, ''tag:0'')])"
      and data = "[0x80, 0x03, 0x66, 0x6F, 0x6F, 0x02, 0x01, 0x2A]"
      and flds = "[(''choice:X'', TInterface), ('''', TInt KInt)]"
      and v = "VStruct [VInterface None, VInt 0]"]
    match_example choice_example match_example_groups choice_example_groups
  by (simp only:)

text \<open>
  The claim as stated fails for a default on a field that is not an integer: for a
  struct of an integer and a string with \<open>default:5\<close>, the bytes
  \<open>30 03 02 01 07\<close> leave the string missing, and decoding fails with a
  SyntaxError instead of assigning the default.
\<close>

theorem missing_default_counterexample:
  "Decode specCodecs 2 [0x30, 0x03, 0x02, 0x01, 0x07]
       (Pointer (TStruct [('''', TInt KInt), (''default:5'', TString)])
          (VStruct [VInt 0, VBytes []])) =
     Inl (SyntaxError ''Default value is only allow to integers'' [])"
  by code_simp

section \<open>Defaults on fields that are not integers\<close>

lemma setDefaultValue_non_integer:
  "\<not> isIntegerKind t \<Longrightarrow>
     setDefaultValue t opts = Inl (SyntaxError ''Default value is only allow to integers'' [])"
  by (cases t) simp_all

text \<open>
  Claim C7, as amended. For every field whose type is not an integer kind but whose
  annotation sets a default value, decoding fails with a SyntaxError when the default
  is to be assigned: when the matching reaches the expected element of the field, the
  current raw TLV does not match it, and the element is neither optional nor part of a
  choice group. When the raw TLV matches, the codec of the field is invoked and the
  default is not looked at.
\<close>

theorem default_on_non_integer_field:
  assumes "decoder e = Some d" and "defaultValue (fopts e) = Some dv"
    and "\<not> isIntegerKind (snd (fvalue e))"
  shows "matchLoop dec (e # es) raws i vs =
     (if i < length raws \<and> eclass e = Class (raws ! i) \<and> etag e = Tag (raws ! i) then
        (case dec d (Content (raws ! i)) (snd (fvalue e)) (vs ! fst (fvalue e)) of
           Inl err \<Rightarrow> Inl err
         | Inr v \<Rightarrow>
             matchLoop dec (removeOtherOptions e es) raws (i + 1) (vs[fst (fvalue e) := v]))
      else if optional (fopts e) \<or> choice (fopts e) \<noteq> None then matchLoop dec es raws i vs
      else Inl (SyntaxError ''Default value is only allow to integers'' []))"
  using assms by (simp add: setDefaultValue_non_integer)

text \<open>A string field with \<open>default:5\<close> and no raw value left.\<close>

theorem default_on_non_integer_field_witness:
  "matchLoop (runDecoder specCodecs NewContext 1)
     [\<lparr> eclass = 0, etag = 4, decoder = Some (Primitive DecodeString),
        fvalue = (0, TString), fopts = zeroOptions\<lparr>defaultValue := Some 5\<rparr> \<rparr>]
     [] 0 [VBytes []] =
   Inl (SyntaxError ''Default value is only allow to integers'' [])"
  using default_on_non_integer_field [where e = "\<lparr> eclass = 0, etag = 4,
        decoder = Some (Primitive DecodeString), fvalue = (0, TString),
        fopts = zeroOptions\<lparr>defaultValue := Some 5\<rparr> \<rparr>"
      and d = "Primitive DecodeString" and dv = 5 and es = "[]" and raws = "[]" and i = 0
      and vs = "[VBytes []]" and dec = "runDecoder specCodecs NewContext 1"]
  by (simp add: zeroOptions_def)

text \<open>
  The claim as stated fails: a struct with a string field with \<open>default:5\<close> is
  decoded from \<open>30 03 04 01 41\<close>, in which the TLV of the field is present.
\<close>

theorem default_with_value_present_counterexample:
  "Decode specCodecs 2 [0x30, 0x03, 0x04, 0x01, 0x41]
       (Pointer (TStruct [(''default:5'', TString)]) (VStruct [VBytes []])) =
     Inr (VStruct [VBytes [0x41]], [])"
  by code_simp

section \<open>The order of a SET\<close>
















lemma out_of_order_raw_values:
  "getRawValuesFromBytes specCodecs [0x81, 0x01, 0x09, 0x80, 0x01, 0x03] 2 =
     Inr [\<lparr> Class = 2, Tag = 1, Constructed = False, Indefinite = False, Content = [0x09] \<rparr>,
          \<lparr> Class = 2, Tag = 0, Constructed = False, Indefinite = False, Content = [0x03] \<rparr>]"
  by code_simp




end
